theory Spec2Isabelle
  imports Main "HOL-Library.Word"
begin

section \<open>Errors and HTTP status codes\<close>

text \<open>
  Go errors as values.  \<open>ErrNotExist\<close> is \<^verbatim>\<open>fs.ErrNotExist\<close>, \<open>ErrOther\<close> any other
  opaque error, \<open>CantStatPath path err\<close> is
  \<^verbatim>\<open>fmt.Errorf("can't stat path %q: %w", path, err)\<close>, \<open>ForeignPod\<close> is
  \<^verbatim>\<open>fmt.Errorf("foreign pod")\<close> and \<open>Aggregate\<close> is the composite error built by
  \<^verbatim>\<open>utilerrors.NewAggregate\<close>.
\<close>

datatype error =
    ErrNotExist
  | ErrOther string
  | CantStatPath string error
  | ForeignPod
  | Aggregate "error list"

text \<open>\<^verbatim>\<open>errors.Is(err, fs.ErrNotExist)\<close>: follows the wrapping chain.\<close>

fun isErrNotExist :: "error \<Rightarrow> bool" where
  "isErrNotExist ErrNotExist = True"
| "isErrNotExist (ErrOther m) = False"
| "isErrNotExist (CantStatPath p e) = isErrNotExist e"
| "isErrNotExist ForeignPod = False"
| "isErrNotExist (Aggregate es) = list_ex isErrNotExist es"

text \<open>\<^verbatim>\<open>utilerrors.NewAggregate\<close>: nil for an empty list, else one composite error.\<close>

definition NewAggregate :: "error list \<Rightarrow> error option" where
  "NewAggregate errs = (if errs = [] then None else Some (Aggregate errs))"

definition StatusOK :: nat where
  "StatusOK = 200"

definition StatusInternalServerError :: nat where
  "StatusInternalServerError = 500"

definition StatusServiceUnavailable :: nat where
  "StatusServiceUnavailable = 503"


section \<open>The node probe (pkg/probeserver/scylladbapistatus/prober.go)\<close>

record Service =
  svcName :: string
  svcLabels :: "string \<rightharpoonup> string"

datatype NodeStatusKind = NodeStatusUp | NodeStatusDown

datatype NodeStateKind = NodeStateNormal | NodeStateLeaving | NodeStateJoining | NodeStateMoving

record NodeStatus =
  Addr :: string
  HostID :: string
  nsStatus :: NodeStatusKind
  nsState :: NodeStateKind

text \<open>
  Modelled from the spec: the method \<^verbatim>\<open>NodeStatusInfo.IsUN\<close> of the database client
  package is not part of the sources at hand; the entry's "operational status/state pair
  denotes up and normal".
\<close>

definition IsUN :: "NodeStatus \<Rightarrow> bool" where
  "IsUN s = (nsStatus s = NodeStatusUp \<and> nsState s = NodeStateNormal)"

text \<open>
  The struct \<^verbatim>\<open>Prober\<close>.  The lister is the function
  \<^verbatim>\<open>serviceLister.Services(namespace).Get(name)\<close>; the timeout only bounds the context.
\<close>

record Prober =
  namespace :: string
  serviceName :: string
  serviceLister :: "string \<Rightarrow> string \<Rightarrow> error + Service"
  awaitPaths :: "string list"

text \<open>
  What one invocation of a handler observes outside the process: \<^verbatim>\<open>os.Stat\<close> on a path
  (\<open>None\<close> is success), the constant \<^verbatim>\<open>naming.NodeMaintenanceLabel\<close>, the construction of the
  local database client, and the answers of its calls.  The native-transport query may be
  issued several times by one invocation, so its answer is indexed by the number of earlier
  queries.
\<close>

record World =
  osStat :: "string \<Rightarrow> error option"
  NodeMaintenanceLabel :: string
  NewScyllaClientForLocalhost :: "error option"
  clientStatus :: "error + NodeStatus list"
  clientGetLocalHostId :: "error + string"
  clientIsNativeTransportEnabled :: "nat \<Rightarrow> error + bool"
  clientPing :: "error option"

text \<open>The calls a handler makes on the database API, in order.\<close>

datatype api_call =
    CallNewScyllaClient
  | CallStatus
  | CallGetLocalHostId
  | CallIsNativeTransportEnabled
  | CallPing
  | CallClose

definition isNodeUnderMaintenance :: "World \<Rightarrow> Prober \<Rightarrow> error + bool" where
  "isNodeUnderMaintenance w p =
     (case serviceLister p (namespace p) (serviceName p) of
        Inl err \<Rightarrow> Inl err
      | Inr svc \<Rightarrow> Inr (svcLabels svc (NodeMaintenanceLabel w) \<noteq> None))"

text \<open>The loop of \<^verbatim>\<open>awaitPathsExist\<close>, carrying \<^verbatim>\<open>ready\<close> and \<^verbatim>\<open>errs\<close>.\<close>

fun awaitPathsLoop :: "(string \<Rightarrow> error option) \<Rightarrow> string list \<Rightarrow> bool \<Rightarrow> error list
    \<Rightarrow> bool \<times> error list" where
  "awaitPathsLoop stat [] ready errs = (ready, errs)"
| "awaitPathsLoop stat (path # paths) ready errs =
     (case stat path of
        None \<Rightarrow> awaitPathsLoop stat paths ready errs
      | Some err \<Rightarrow>
          if \<not> isErrNotExist err
          then awaitPathsLoop stat paths ready (errs @ [CantStatPath path err])
          else awaitPathsLoop stat paths False errs)"

definition awaitPathsExist :: "World \<Rightarrow> Prober \<Rightarrow> error + bool" where
  "awaitPathsExist w p =
     (case awaitPathsLoop (osStat w) (awaitPaths p) True [] of
        (ready, errs) \<Rightarrow>
          (case NewAggregate errs of
             Some err \<Rightarrow> Inl err
           | None \<Rightarrow> Inr ready))"

text \<open>
  The scan of \<^verbatim>\<open>Readyz\<close> over the node statuses.  \<open>k\<close> counts the native-transport
  queries made so far; the result is the status code written and the new count.
\<close>

fun readyzScan :: "(nat \<Rightarrow> error + bool) \<Rightarrow> string \<Rightarrow> NodeStatus list \<Rightarrow> nat \<Rightarrow> nat \<times> nat" where
  "readyzScan query hostID [] k = (StatusServiceUnavailable, k)"
| "readyzScan query hostID (s # ss) k =
     (if HostID s = hostID \<and> IsUN s
      then (case query k of
              Inl err \<Rightarrow> (StatusServiceUnavailable, Suc k)
            | Inr transportEnabled \<Rightarrow>
                if transportEnabled then (StatusOK, Suc k)
                else readyzScan query hostID ss (Suc k))
      else readyzScan query hostID ss k)"

text \<open>
  The handlers return the one status code they write and the database-API calls they made.
  The deferred \<^verbatim>\<open>Close\<close> runs on every exit after the client exists.
\<close>

definition Readyz :: "World \<Rightarrow> Prober \<Rightarrow> nat \<times> api_call list" where
  "Readyz w p =
     (case awaitPathsExist w p of
        Inl err \<Rightarrow> (StatusInternalServerError, [])
      | Inr False \<Rightarrow> (StatusServiceUnavailable, [])
      | Inr True \<Rightarrow>
     (case isNodeUnderMaintenance w p of
        Inl err \<Rightarrow> (StatusServiceUnavailable, [])
      | Inr True \<Rightarrow> (StatusServiceUnavailable, [])
      | Inr False \<Rightarrow>
     (case NewScyllaClientForLocalhost w of
        Some err \<Rightarrow> (StatusInternalServerError, [CallNewScyllaClient])
      | None \<Rightarrow>
     (case clientStatus w of
        Inl err \<Rightarrow> (StatusInternalServerError, [CallNewScyllaClient, CallStatus, CallClose])
      | Inr nodeStatuses \<Rightarrow>
     (case clientGetLocalHostId w of
        Inl err \<Rightarrow> (StatusInternalServerError,
                     [CallNewScyllaClient, CallStatus, CallGetLocalHostId, CallClose])
      | Inr hostID \<Rightarrow>
     (case readyzScan (clientIsNativeTransportEnabled w) hostID nodeStatuses 0 of
        (code, k) \<Rightarrow>
          (code, [CallNewScyllaClient, CallStatus, CallGetLocalHostId]
                 @ replicate k CallIsNativeTransportEnabled @ [CallClose])))))))"

definition Healthz :: "World \<Rightarrow> Prober \<Rightarrow> nat \<times> api_call list" where
  "Healthz w p =
     (case awaitPathsExist w p of
        Inl err \<Rightarrow> (StatusInternalServerError, [])
      | Inr False \<Rightarrow> (StatusOK, [])
      | Inr True \<Rightarrow>
     (case isNodeUnderMaintenance w p of
        Inl err \<Rightarrow> (StatusServiceUnavailable, [])
      | Inr True \<Rightarrow> (StatusOK, [])
      | Inr False \<Rightarrow>
     (case NewScyllaClientForLocalhost w of
        Some err \<Rightarrow> (StatusInternalServerError, [CallNewScyllaClient])
      | None \<Rightarrow>
     (case clientPing w of
        Some err \<Rightarrow> (StatusServiceUnavailable, [CallNewScyllaClient, CallPing, CallClose])
      | None \<Rightarrow> (StatusOK, [CallNewScyllaClient, CallPing, CallClose])))))"


section \<open>The datacenter status (controller scylladbdatacenter, status.go)\<close>

type_synonym int32 = "32 word"
type_synonym int64 = "64 word"

text \<open>
  Field names that several Go structs share carry a prefix here (\<open>stsName\<close>, \<open>rackNodes\<close>,
  \<open>condStatus\<close>, ...); pointers are options, \<open>None\<close> being nil.
\<close>

record OwnerReference =
  refUID :: string
  refController :: "bool option"

record Container =
  containerName :: string
  containerImage :: string

record ContainerStatus =
  csName :: string
  csReady :: bool
  csRunning :: bool

record Pod =
  podOwnerReferences :: "OwnerReference list"
  podContainers :: "Container list"
  podContainerStatuses :: "ContainerStatus list"

record StatefulSetSpec =
  Replicas :: "int32 option"

record StatefulSetStatus =
  stsObservedGeneration :: int64
  ReadyReplicas :: int32
  AvailableReplicas :: int32
  UpdatedReplicas :: int32
  CurrentReplicas :: int32

record StatefulSet =
  stsName :: string
  stsNamespace :: string
  stsUID :: string
  stsGeneration :: int64
  stsLabels :: "string \<rightharpoonup> string"
  stsSpec :: StatefulSetSpec
  stsStatus :: StatefulSetStatus

record RackStatus =
  rackName :: string
  rackCurrentVersion :: string
  rackUpdatedVersion :: string
  rackNodes :: "int32 option"
  rackCurrentNodes :: "int32 option"
  rackUpdatedNodes :: "int32 option"
  rackReadyNodes :: "int32 option"
  rackAvailableNodes :: "int32 option"
  rackStale :: "bool option"

datatype ConditionStatus = ConditionTrue | ConditionFalse | ConditionUnknown

text \<open>\<^verbatim>\<open>metav1.Condition\<close>; the transition time is a clock reading, 0 the zero time.\<close>

record Condition =
  condType :: string
  condStatus :: ConditionStatus
  condObservedGeneration :: int64
  condLastTransitionTime :: nat
  condReason :: string
  condMessage :: string

text \<open>
  \<^verbatim>\<open>ScyllaDBDatacenterStatus\<close>.  The fields below are the ones the code reads or writes; every
  other field of the struct lives in the extension slot \<open>more\<close> of the record.
\<close>

record ScyllaDBDatacenterStatus =
  ObservedGeneration :: "int64 option"
  Conditions :: "Condition list"
  Racks :: "RackStatus list"
  Nodes :: "int32 option"
  ReadyNodes :: "int32 option"
  AvailableNodes :: "int32 option"

record RackSpec =
  specName :: string

record ScyllaDBDatacenterSpec =
  Image :: string
  specRacks :: "RackSpec list"

record 'a ScyllaDBDatacenter =
  sdcName :: string
  sdcNamespace :: string
  Generation :: int64
  Spec :: ScyllaDBDatacenterSpec
  Status :: "'a ScyllaDBDatacenterStatus_scheme"

text \<open>
  The struct \<^verbatim>\<open>Controller\<close>, as far as status.go uses it: the pod lister
  (\<^verbatim>\<open>podLister.Pods(ns).Get(name)\<close>) and the client call that persists a status
  (\<^verbatim>\<open>scyllaClient.ScyllaDBDatacenters(ns).UpdateStatus\<close>, \<open>None\<close> is success).
\<close>

record 'a Controller =
  podLister :: "string \<Rightarrow> string \<Rightarrow> error + Pod"
  UpdateStatus :: "'a ScyllaDBDatacenter \<Rightarrow> error option"

text \<open>
  Helpers and constants of the packages naming, controllerhelpers and internalapi that
  status.go calls and whose bodies are not part of the sources at hand.  They are taken as
  parameters, with the signatures of their call sites.
\<close>

record 'a Helpers =
  ImageToVersion :: "string \<Rightarrow> string \<times> error option"
  ScyllaVersion :: "Container list \<Rightarrow> error + string"
  RackNameLabel :: string
  StatefulSetNameForRack :: "RackSpec \<Rightarrow> 'a ScyllaDBDatacenter \<Rightarrow> string"
  GetRackNodeCount :: "'a ScyllaDBDatacenter \<Rightarrow> string \<Rightarrow> error + int32"
  MemberServiceName :: "RackSpec \<Rightarrow> 'a ScyllaDBDatacenter \<Rightarrow> int \<Rightarrow> string"
  PodNameFromService :: "Service \<Rightarrow> string"
  IsScyllaDBIgnitionContainerReady :: "Pod \<Rightarrow> bool"
  IsDelayedVolumeMountContainerRunning :: "Pod \<Rightarrow> bool"
  PrewarmedCondition :: string
  AsExpectedReason :: string

subsection \<open>updateAggregatedStatusFields\<close>

text \<open>
  The loop adds the three counts of every rack, in \<^verbatim>\<open>int32\<close>; dereferencing a nil count
  panics (\<open>None\<close>).
\<close>

fun aggregateLoop :: "RackStatus list \<Rightarrow> int32 \<times> int32 \<times> int32 \<Rightarrow> (int32 \<times> int32 \<times> int32) option" where
  "aggregateLoop [] acc = Some acc"
| "aggregateLoop (rackStatus # rest) (nodes, ready, available) =
     (case rackNodes rackStatus of None \<Rightarrow> None | Some n \<Rightarrow>
     (case rackReadyNodes rackStatus of None \<Rightarrow> None | Some r \<Rightarrow>
     (case rackAvailableNodes rackStatus of None \<Rightarrow> None | Some a \<Rightarrow>
        aggregateLoop rest (nodes + n, ready + r, available + a))))"

definition updateAggregatedStatusFields ::
    "'a ScyllaDBDatacenterStatus_scheme \<Rightarrow> 'a ScyllaDBDatacenterStatus_scheme option" where
  "updateAggregatedStatusFields status =
     (case aggregateLoop (Racks status) (0, 0, 0) of
        None \<Rightarrow> None
      | Some (nodes, ready, available) \<Rightarrow>
          Some (status\<lparr>Nodes := Some nodes, ReadyNodes := Some ready,
                       AvailableNodes := Some available\<rparr>))"

subsection \<open>updateStatus\<close>

text \<open>
  The result is the list of objects handed to \<^verbatim>\<open>UpdateStatus\<close> and the error returned;
  \<open>None\<close> is a panic.  \<^verbatim>\<open>apiequality.Semantic.DeepEqual\<close> compares pointers by their targets
  and does not tell a nil slice from an empty one: equality of the modelled values.
\<close>

definition updateStatus :: "'a Controller \<Rightarrow> 'a ScyllaDBDatacenter
    \<Rightarrow> 'a ScyllaDBDatacenterStatus_scheme \<Rightarrow> ('a ScyllaDBDatacenter list \<times> error option) option" where
  "updateStatus sdcc currentSC status =
     (if Status currentSC = status then Some ([], None)
      else (case updateAggregatedStatusFields status of
              None \<Rightarrow> None
            | Some aggregated \<Rightarrow>
                (let sdc = currentSC\<lparr>Status := aggregated\<rparr>
                 in Some ([sdc], UpdateStatus sdcc sdc))))"

subsection \<open>calculateRackStatus\<close>

text \<open>\<^verbatim>\<open>metav1.GetControllerOfNoCopy\<close>: the first owner reference marked as controller.\<close>

definition GetControllerOfNoCopy :: "Pod \<Rightarrow> OwnerReference option" where
  "GetControllerOfNoCopy pod = find (\<lambda>r. refController r = Some True) (podOwnerReferences pod)"

definition getScyllaVersion :: "'a Controller \<Rightarrow> 'a Helpers \<Rightarrow> StatefulSet \<Rightarrow> error + string" where
  "getScyllaVersion sdcc h sts =
     (let firstMemberName = stsName sts @ ''-0'' in
      case podLister sdcc (stsNamespace sts) firstMemberName of
        Inl err \<Rightarrow> Inl err
      | Inr firstMember \<Rightarrow>
          (case GetControllerOfNoCopy firstMember of
             None \<Rightarrow> Inl ForeignPod
           | Some controllerRef \<Rightarrow>
               if refUID controllerRef \<noteq> stsUID sts then Inl ForeignPod
               else (case ScyllaVersion h (podContainers firstMember) of
                       Inl err \<Rightarrow> Inl err
                     | Inr version \<Rightarrow> Inr version)))"

text \<open>A missing key of a Go string map reads as the empty string.\<close>

definition labelValue :: "(string \<rightharpoonup> string) \<Rightarrow> string \<Rightarrow> string" where
  "labelValue labels k = (case labels k of None \<Rightarrow> [] | Some v \<Rightarrow> v)"

text \<open>
  \<open>None\<close> is the panic of \<^verbatim>\<open>*sts.Spec.Replicas\<close> on a nil pointer.  A failed version lookup
  is logged and leaves \<^verbatim>\<open>CurrentVersion\<close> empty.
\<close>

definition calculateRackStatus :: "'a Controller \<Rightarrow> 'a Helpers \<Rightarrow> 'a ScyllaDBDatacenter
    \<Rightarrow> StatefulSet option \<Rightarrow> RackStatus option" where
  "calculateRackStatus sdcc h sdc stsOpt =
     (let status = \<lparr> rackName = [], rackCurrentVersion = [], rackUpdatedVersion = [],
                     rackNodes = Some 0, rackCurrentNodes = Some 0, rackUpdatedNodes = Some 0,
                     rackReadyNodes = Some 0, rackAvailableNodes = Some 0,
                     rackStale = Some True \<rparr> in
      case stsOpt of
        None \<Rightarrow> Some status
      | Some sts \<Rightarrow>
          (case Replicas (stsSpec sts) of
             None \<Rightarrow> None
           | Some replicas \<Rightarrow>
               (let scyllaDBImageVersion = fst (ImageToVersion h (Image (Spec sdc)));
                    status = status\<lparr>
                      rackName := labelValue (stsLabels sts) (RackNameLabel h),
                      rackNodes := Some replicas,
                      rackReadyNodes := Some (ReadyReplicas (stsStatus sts)),
                      rackAvailableNodes := Some (AvailableReplicas (stsStatus sts)),
                      rackUpdatedNodes := Some (UpdatedReplicas (stsStatus sts)),
                      rackCurrentNodes := Some (CurrentReplicas (stsStatus sts)),
                      rackStale := Some (stsObservedGeneration (stsStatus sts) <s stsGeneration sts),
                      rackUpdatedVersion := scyllaDBImageVersion\<rparr>
                in if rackNodes status \<noteq> None \<and> rackNodes status = Some 0
                   then Some (status\<lparr>rackCurrentVersion := scyllaDBImageVersion\<rparr>)
                   else (case getScyllaVersion sdcc h sts of
                           Inl err \<Rightarrow> Some status
                         | Inr version \<Rightarrow> Some (status\<lparr>rackCurrentVersion := version\<rparr>)))))"

subsection \<open>calculateStatus\<close>

fun calculateRacks :: "'a Controller \<Rightarrow> 'a Helpers \<Rightarrow> 'a ScyllaDBDatacenter
    \<Rightarrow> (string \<rightharpoonup> StatefulSet) \<Rightarrow> RackSpec list \<Rightarrow> RackStatus list \<Rightarrow> RackStatus list option" where
  "calculateRacks sdcc h sdc statefulSetMap [] racks = Some racks"
| "calculateRacks sdcc h sdc statefulSetMap (rack # rest) racks =
     (let stsName = StatefulSetNameForRack h rack sdc in
      case calculateRackStatus sdcc h sdc (statefulSetMap stsName) of
        None \<Rightarrow> None
      | Some rackStatus \<Rightarrow> calculateRacks sdcc h sdc statefulSetMap rest (racks @ [rackStatus]))"

definition calculateStatus :: "'a Controller \<Rightarrow> 'a Helpers \<Rightarrow> 'a ScyllaDBDatacenter
    \<Rightarrow> (string \<rightharpoonup> StatefulSet) \<Rightarrow> 'a ScyllaDBDatacenterStatus_scheme option" where
  "calculateStatus sdcc h sdc statefulSetMap =
     (let status = (Status sdc)\<lparr>ObservedGeneration := Some (Generation sdc), Racks := []\<rparr> in
      case calculateRacks sdcc h sdc statefulSetMap (specRacks (Spec sdc)) (Racks status) of
        None \<Rightarrow> None
      | Some racks \<Rightarrow> updateAggregatedStatusFields (status\<lparr>Racks := racks\<rparr>))"


subsection \<open>setPrewarmedStatusCondition\<close>

text \<open>
  \<^verbatim>\<open>apimeta.FindStatusCondition\<close> and \<^verbatim>\<open>apimeta.SetStatusCondition\<close> of the cluster API
  library: the first condition of the given type is overwritten in place, its transition
  time moving only when the status changes; a new type is appended.  \<open>now\<close> is the reading of
  the clock.
\<close>

definition FindStatusCondition :: "Condition list \<Rightarrow> string \<Rightarrow> Condition option" where
  "FindStatusCondition conditions conditionType =
     find (\<lambda>c. condType c = conditionType) conditions"

definition overwriteCondition :: "Condition \<Rightarrow> Condition \<Rightarrow> nat \<Rightarrow> Condition" where
  "overwriteCondition existingCondition newCondition now =
     (let c = (if condStatus existingCondition \<noteq> condStatus newCondition
               then existingCondition\<lparr>
                      condStatus := condStatus newCondition,
                      condLastTransitionTime :=
                        (if condLastTransitionTime newCondition \<noteq> 0
                         then condLastTransitionTime newCondition else now)\<rparr>
               else existingCondition)
      in c\<lparr>condReason := condReason newCondition,
            condMessage := condMessage newCondition,
            condObservedGeneration := condObservedGeneration newCondition\<rparr>)"

fun overwriteFirst :: "Condition list \<Rightarrow> Condition \<Rightarrow> nat \<Rightarrow> Condition list" where
  "overwriteFirst [] newCondition now = []"
| "overwriteFirst (c # cs) newCondition now =
     (if condType c = condType newCondition
      then overwriteCondition c newCondition now # cs
      else c # overwriteFirst cs newCondition now)"

definition SetStatusCondition :: "Condition list \<Rightarrow> Condition \<Rightarrow> nat \<Rightarrow> Condition list" where
  "SetStatusCondition conditions newCondition now =
     (case FindStatusCondition conditions (condType newCondition) of
        None \<Rightarrow>
          conditions @ [if condLastTransitionTime newCondition = 0
                        then newCondition\<lparr>condLastTransitionTime := now\<rparr>
                        else newCondition]
      | Some existingCondition \<Rightarrow> overwriteFirst conditions newCondition now)"

text \<open>
  The body of the inner loop for one ordinal: the new value of \<^verbatim>\<open>prewarmed\<close> and whether the
  loop is left by \<^verbatim>\<open>break\<close>.
\<close>

definition prewarmedNode :: "'a Controller \<Rightarrow> 'a Helpers \<Rightarrow> 'a ScyllaDBDatacenter
    \<Rightarrow> (string \<rightharpoonup> Service) \<Rightarrow> RackSpec \<Rightarrow> int32 \<Rightarrow> bool \<Rightarrow> bool \<times> bool" where
  "prewarmedNode sdcc h sdc services rack ord prewarmed =
     (let svcName = MemberServiceName h rack sdc (sint ord) in
      case services svcName of
        None \<Rightarrow> (False, True)
      | Some svc \<Rightarrow>
          (let podName = PodNameFromService h svc in
           case podLister sdcc (sdcNamespace sdc) podName of
             Inl err \<Rightarrow> (False, True)
           | Inr pod \<Rightarrow>
               if \<not> IsScyllaDBIgnitionContainerReady h pod
                  \<or> \<not> IsDelayedVolumeMountContainerRunning h pod
               then (False, False)
               else (prewarmed, False)))"

text \<open>\<^verbatim>\<open>for ord := int32(0); ord < *rackNodeCount; ord++\<close>, with a body that may break.\<close>

function forOrdinals :: "(int32 \<Rightarrow> bool \<Rightarrow> bool \<times> bool) \<Rightarrow> int32 \<Rightarrow> int32 \<Rightarrow> bool \<Rightarrow> bool" where
  "forOrdinals body ord rackNodeCount prewarmed =
     (if ord <s rackNodeCount
      then (case body ord prewarmed of
              (prewarmed', stop) \<Rightarrow>
                if stop then prewarmed'
                else forOrdinals body (ord + 1) rackNodeCount prewarmed')
      else prewarmed)"
  by pat_completeness auto

termination
proof (relation "measure (\<lambda>(body, ord, n, pw). nat (sint n - sint ord))", goal_cases)
  case 1
  show ?case by simp
next
  case (2 body ord n pw x y)
  have "sint n < 2 ^ 31" using sint_lt[of n] by simp
  moreover have "- (2 ^ 31) \<le> sint ord" using sint_ge[of ord] by simp
  ultimately have "- (2 ^ 31) \<le> sint ord + 1 \<and> sint ord + 1 < 2 ^ 31"
    using 2(1) by (simp add: word_sless_alt)
  then have "sint (ord + 1) = sint ord + 1"
    by (simp add: sint_word_ariths signed_take_bit_int_eq_self)
  then show ?case using 2(1) by (simp add: word_sless_alt)
qed

declare forOrdinals.simps [simp del]

text \<open>
  The outer loop over the racks of the specification.  A failed node count leaves the loop;
  a \<^verbatim>\<open>break\<close> of the inner loop only ends that rack.
\<close>

fun prewarmedRacks :: "'a Controller \<Rightarrow> 'a Helpers \<Rightarrow> 'a ScyllaDBDatacenter
    \<Rightarrow> (string \<rightharpoonup> Service) \<Rightarrow> RackSpec list \<Rightarrow> bool \<Rightarrow> bool" where
  "prewarmedRacks sdcc h sdc services [] prewarmed = prewarmed"
| "prewarmedRacks sdcc h sdc services (rack # rest) prewarmed =
     (case GetRackNodeCount h sdc (specName rack) of
        Inl err \<Rightarrow> False
      | Inr rackNodeCount \<Rightarrow>
          prewarmedRacks sdcc h sdc services rest
            (forOrdinals (prewarmedNode sdcc h sdc services rack) 0 rackNodeCount prewarmed))"

definition setPrewarmedStatusCondition :: "'a Controller \<Rightarrow> 'a Helpers \<Rightarrow> nat
    \<Rightarrow> 'a ScyllaDBDatacenter \<Rightarrow> 'a ScyllaDBDatacenterStatus_scheme \<Rightarrow> (string \<rightharpoonup> Service)
    \<Rightarrow> 'a ScyllaDBDatacenterStatus_scheme" where
  "setPrewarmedStatusCondition sdcc h now sdc status services =
     (if prewarmedRacks sdcc h sdc services (specRacks (Spec sdc)) True
      then status\<lparr>Conditions := SetStatusCondition (Conditions status)
             \<lparr> condType = PrewarmedCondition h,
               condStatus = ConditionTrue,
               condObservedGeneration = Generation sdc,
               condLastTransitionTime = 0,
               condReason = AsExpectedReason h,
               condMessage = [] \<rparr> now\<rparr>
      else status\<lparr>Conditions := SetStatusCondition (Conditions status)
             \<lparr> condType = PrewarmedCondition h,
               condStatus = ConditionFalse,
               condObservedGeneration = Generation sdc,
               condLastTransitionTime = 0,
               condReason = ''NotAllNodesPrewarmed'',
               condMessage = ''Not all nodes are prewarmed yet.'' \<rparr> now\<rparr>)"

section \<open>Example inputs\<close>

text \<open>
  A node whose exposed service exists without the maintenance label and whose database
  reports itself up and normal with native transport enabled; its peer is down.
\<close>

definition exampleService :: Service where
  "exampleService = \<lparr> svcName = ''dc-rack-0'', svcLabels = Map.empty \<rparr>"

definition exampleProber :: Prober where
  "exampleProber =
     \<lparr> namespace = ''scylla'', serviceName = ''dc-rack-0'',
       serviceLister = (\<lambda>ns name. if ns = ''scylla'' \<and> name = ''dc-rack-0''
                                  then Inr exampleService else Inl ErrNotExist),
       awaitPaths = [''/mnt/ready''] \<rparr>"

definition exampleWorld :: World where
  "exampleWorld =
     \<lparr> osStat = (\<lambda>path. None),
       NodeMaintenanceLabel = ''scylla/node-maintenance'',
       NewScyllaClientForLocalhost = None,
       clientStatus = Inr [\<lparr> Addr = ''10.0.0.2'', HostID = ''h2'', nsStatus = NodeStatusDown,
                             nsState = NodeStateNormal \<rparr>,
                           \<lparr> Addr = ''10.0.0.1'', HostID = ''h1'', nsStatus = NodeStatusUp,
                             nsState = NodeStateNormal \<rparr>],
       clientGetLocalHostId = Inr ''h1'',
       clientIsNativeTransportEnabled = (\<lambda>k. Inr True),
       clientPing = None \<rparr>"


text \<open>
  A datacenter \<open>dc\<close> with the racks \<open>a\<close> and \<open>b\<close>.  The workload object of rack \<open>a\<close> is
  observed with three replicas, all ready, and its generation observed; rack \<open>b\<close> has no
  workload object yet.
\<close>

definition exampleHelpers :: "unit Helpers" where
  "exampleHelpers =
     \<lparr> ImageToVersion = (\<lambda>image. if image = ''scylladb/scylla:6.2.0'' then (''6.2.0'', None)
                                  else ([], Some (ErrOther ''invalid image''))),
       ScyllaVersion = (\<lambda>containers. case containers of
                                        [] \<Rightarrow> Inl (ErrOther ''no container'')
                                      | c # cs \<Rightarrow> Inr (drop 16 (containerImage c))),
       RackNameLabel = ''scylla/rack'',
       StatefulSetNameForRack = (\<lambda>rack sdc. sdcName sdc @ ''-'' @ specName rack),
       GetRackNodeCount = (\<lambda>sdc name. if name = ''a'' then Inr 1
                                       else if name = ''b'' then Inr 0
                                       else Inl (ErrOther ''no such rack'')),
       MemberServiceName = (\<lambda>rack sdc ord. sdcName sdc @ ''-'' @ specName rack @ ''-''
                                            @ (if ord = 0 then ''0'' else ''n'')),
       PodNameFromService = svcName,
       IsScyllaDBIgnitionContainerReady =
         (\<lambda>pod. list_ex (\<lambda>c. csName c = ''scylladb-ignition'' \<and> csReady c)
                         (podContainerStatuses pod)),
       IsDelayedVolumeMountContainerRunning =
         (\<lambda>pod. list_ex (\<lambda>c. csName c = ''scylla'' \<and> csRunning c) (podContainerStatuses pod)),
       PrewarmedCondition = ''Prewarmed'',
       AsExpectedReason = ''AsExpected'' \<rparr>"

definition examplePod :: Pod where
  "examplePod =
     \<lparr> podOwnerReferences = [\<lparr> refUID = ''uid-a'', refController = Some True \<rparr>],
       podContainers = [\<lparr> containerName = ''scylla'', containerImage = ''scylladb/scylla:6.2.0'' \<rparr>],
       podContainerStatuses =
         [\<lparr> csName = ''scylladb-ignition'', csReady = True, csRunning = True \<rparr>,
          \<lparr> csName = ''scylla'', csReady = True, csRunning = True \<rparr>] \<rparr>"

definition exampleController :: "unit Controller" where
  "exampleController =
     \<lparr> podLister = (\<lambda>ns name. if ns = ''scylla'' \<and> name = ''dc-a-0'' then Inr examplePod
                              else Inl ErrNotExist),
       UpdateStatus = (\<lambda>sdc. None) \<rparr>"

definition exampleStatefulSet :: StatefulSet where
  "exampleStatefulSet =
     \<lparr> stsName = ''dc-a'', stsNamespace = ''scylla'', stsUID = ''uid-a'', stsGeneration = 2,
       stsLabels = [''scylla/rack'' \<mapsto> ''a''],
       stsSpec = \<lparr> Replicas = Some 3 \<rparr>,
       stsStatus = \<lparr> stsObservedGeneration = 2, ReadyReplicas = 3, AvailableReplicas = 3,
                     UpdatedReplicas = 3, CurrentReplicas = 3 \<rparr> \<rparr>"

definition exampleDatacenter :: "unit ScyllaDBDatacenter" where
  "exampleDatacenter =
     \<lparr> sdcName = ''dc'', sdcNamespace = ''scylla'', Generation = 5,
       Spec = \<lparr> Image = ''scylladb/scylla:6.2.0'',
                specRacks = [\<lparr> specName = ''a'' \<rparr>, \<lparr> specName = ''b'' \<rparr>] \<rparr>,
       Status = \<lparr> ObservedGeneration = None,
                  Conditions = [\<lparr> condType = ''Available'', condStatus = ConditionTrue,
                                   condObservedGeneration = 4, condLastTransitionTime = 17,
                                   condReason = ''AsExpected'', condMessage = [] \<rparr>],
                  Racks = [], Nodes = Some 7, ReadyNodes = None, AvailableNodes = None \<rparr> \<rparr>"

definition exampleStatefulSets :: "string \<rightharpoonup> StatefulSet" where
  "exampleStatefulSets = [''dc-a'' \<mapsto> exampleStatefulSet]"

definition exampleServices :: "string \<rightharpoonup> Service" where
  "exampleServices = [''dc-a-0'' \<mapsto> \<lparr> svcName = ''dc-a-0'', svcLabels = Map.empty \<rparr>]"


text \<open>The status of \<open>dc\<close> computed from these objects.\<close>

definition exampleComputedStatus :: ScyllaDBDatacenterStatus where
  "exampleComputedStatus =
     \<lparr> ObservedGeneration = Some 5,
       Conditions = [\<lparr> condType = ''Available'', condStatus = ConditionTrue,
                        condObservedGeneration = 4, condLastTransitionTime = 17,
                        condReason = ''AsExpected'', condMessage = [] \<rparr>],
       Racks = [\<lparr> rackName = ''a'', rackCurrentVersion = ''6.2.0'',
                   rackUpdatedVersion = ''6.2.0'', rackNodes = Some 3,
                   rackCurrentNodes = Some 3, rackUpdatedNodes = Some 3,
                   rackReadyNodes = Some 3, rackAvailableNodes = Some 3,
                   rackStale = Some False \<rparr>,
                \<lparr> rackName = [], rackCurrentVersion = [], rackUpdatedVersion = [],
                   rackNodes = Some 0, rackCurrentNodes = Some 0,
                   rackUpdatedNodes = Some 0, rackReadyNodes = Some 0,
                   rackAvailableNodes = Some 0, rackStale = Some True \<rparr>],
       Nodes = Some 3, ReadyNodes = Some 3, AvailableNodes = Some 3 \<rparr>"


section \<open>The node probe: await-paths, maintenance and the database phase\<close>

lemma awaitPathsLoop_result:
  "awaitPathsLoop stat paths ready errs =
     (ready \<and> (\<forall>path \<in> set paths. case stat path of None \<Rightarrow> True | Some e \<Rightarrow> \<not> isErrNotExist e),
      errs @ concat (map (\<lambda>path. case stat path of
                                  None \<Rightarrow> []
                                | Some e \<Rightarrow> if isErrNotExist e then [] else [CantStatPath path e])
                         paths))"
  by (induction paths arbitrary: ready errs) (auto split: option.splits)

lemma readyzScan_ok:
  "fst (readyzScan query hostID ss k) = StatusOK \<longleftrightarrow>
     (\<exists>i < length (filter (\<lambda>s. HostID s = hostID \<and> IsUN s) ss).
        query (k + i) = Inr True \<and> (\<forall>j < i. query (k + j) = Inr False))"
proof (induction ss arbitrary: k)
  case Nil
  show ?case by (simp add: StatusOK_def StatusServiceUnavailable_def)
next
  case (Cons s ss)
  show ?case
  proof (cases "HostID s = hostID \<and> IsUN s")
    case False
    then show ?thesis using Cons.IH[of k] by auto
  next
    case True
    show ?thesis
    proof (cases "query k")
      case (Inl e)
      then show ?thesis using True
        by (simp add: StatusOK_def StatusServiceUnavailable_def Ex_less_Suc2 All_less_Suc2)
    next
      case (Inr b)
      then show ?thesis using True Cons.IH[of "Suc k"]
        by (cases b) (simp_all add: Ex_less_Suc2 All_less_Suc2)
    qed
  qed
qed

lemma readyzScan_codes:
  "fst (readyzScan query hostID ss k) = StatusOK
   \<or> fst (readyzScan query hostID ss k) = StatusServiceUnavailable"
  by (induction ss arbitrary: k) (auto split: sum.splits)

lemma readyzScan_not_ok:
  "fst (readyzScan query hostID ss k) \<noteq> StatusOK
   \<Longrightarrow> fst (readyzScan query hostID ss k) = StatusServiceUnavailable"
  using readyzScan_codes[of query hostID ss k] by blast

lemma Readyz_database_phase:
  assumes "awaitPathsExist w p = Inr True" and "isNodeUnderMaintenance w p = Inr False"
    and "NewScyllaClientForLocalhost w = None"
    and "clientStatus w = Inr nodeStatuses" and "clientGetLocalHostId w = Inr hostID"
  shows "fst (Readyz w p) = fst (readyzScan (clientIsNativeTransportEnabled w) hostID nodeStatuses 0)"
  using assms by (simp add: Readyz_def split: prod.splits)

text \<open>
  C1.  When the await-paths and maintenance checks pass, \<open>Readyz\<close> writes 200 exactly when
  the client is built, the node-status list and the local host identifier are obtained, and
  the list has an entry with that host identifier in state up/normal for which the
  native-transport query answers true (the query for the i-th such entry is made once the
  queries for the earlier ones have answered false).  With exactly one such entry, transport
  enabled gives 200 and transport disabled gives 503.
\<close>

theorem Readyz_ok_iff_up_normal_and_transport:
  assumes "awaitPathsExist w p = Inr True" and "isNodeUnderMaintenance w p = Inr False"
  shows "(fst (Readyz w p) = StatusOK \<longleftrightarrow>
            NewScyllaClientForLocalhost w = None \<and>
            (\<exists>nodeStatuses hostID.
               clientStatus w = Inr nodeStatuses \<and> clientGetLocalHostId w = Inr hostID \<and>
               (\<exists>i < length (filter (\<lambda>s. HostID s = hostID \<and> IsUN s) nodeStatuses).
                  clientIsNativeTransportEnabled w i = Inr True \<and>
                  (\<forall>j < i. clientIsNativeTransportEnabled w j = Inr False))))
       \<and> (\<forall>nodeStatuses hostID s.
            NewScyllaClientForLocalhost w = None \<and> clientStatus w = Inr nodeStatuses \<and>
            clientGetLocalHostId w = Inr hostID \<and>
            filter (\<lambda>s. HostID s = hostID \<and> IsUN s) nodeStatuses = [s] \<longrightarrow>
              (clientIsNativeTransportEnabled w 0 = Inr True \<longrightarrow> fst (Readyz w p) = StatusOK) \<and>
              (clientIsNativeTransportEnabled w 0 = Inr False
                 \<longrightarrow> fst (Readyz w p) = StatusServiceUnavailable))"
proof (intro conjI allI impI)
  show "fst (Readyz w p) = StatusOK \<longleftrightarrow>
          NewScyllaClientForLocalhost w = None \<and>
          (\<exists>nodeStatuses hostID.
             clientStatus w = Inr nodeStatuses \<and> clientGetLocalHostId w = Inr hostID \<and>
             (\<exists>i < length (filter (\<lambda>s. HostID s = hostID \<and> IsUN s) nodeStatuses).
                clientIsNativeTransportEnabled w i = Inr True \<and>
                (\<forall>j < i. clientIsNativeTransportEnabled w j = Inr False)))"
  proof (cases "NewScyllaClientForLocalhost w")
    case (Some e)
    then show ?thesis using assms
      by (simp add: Readyz_def StatusOK_def StatusInternalServerError_def)
  next
    case None
    show ?thesis
    proof (cases "clientStatus w")
      case (Inl e)
      then show ?thesis using assms None
        by (simp add: Readyz_def StatusOK_def StatusInternalServerError_def)
    next
      case st: (Inr nodeStatuses)
      show ?thesis
      proof (cases "clientGetLocalHostId w")
        case (Inl e)
        then show ?thesis using assms None st
          by (simp add: Readyz_def StatusOK_def StatusInternalServerError_def)
      next
        case (Inr hostID)
        show ?thesis
          using Readyz_database_phase[OF assms None st Inr]
            readyzScan_ok[of "clientIsNativeTransportEnabled w" hostID nodeStatuses 0]
            None st Inr
          by simp
      qed
    qed
  qed
next
  fix nodeStatuses hostID s
  assume h: "NewScyllaClientForLocalhost w = None \<and> clientStatus w = Inr nodeStatuses \<and>
            clientGetLocalHostId w = Inr hostID \<and>
            filter (\<lambda>s. HostID s = hostID \<and> IsUN s) nodeStatuses = [s]"
  then have eq: "fst (Readyz w p)
      = fst (readyzScan (clientIsNativeTransportEnabled w) hostID nodeStatuses 0)"
    using Readyz_database_phase[OF assms] by blast
  {
    assume "clientIsNativeTransportEnabled w 0 = Inr True"
    then show "fst (Readyz w p) = StatusOK"
      using eq h readyzScan_ok[of "clientIsNativeTransportEnabled w" hostID nodeStatuses 0]
      by simp
  }
  {
    assume "clientIsNativeTransportEnabled w 0 = Inr False"
    then have "fst (readyzScan (clientIsNativeTransportEnabled w) hostID nodeStatuses 0) \<noteq> StatusOK"
      using h readyzScan_ok[of "clientIsNativeTransportEnabled w" hostID nodeStatuses 0]
      by simp
    then show "fst (Readyz w p) = StatusServiceUnavailable"
      using eq readyzScan_not_ok by simp
  }
qed

theorem Readyz_ok_iff_up_normal_and_transport_witness:
  "awaitPathsExist exampleWorld exampleProber = Inr True
   \<and> isNodeUnderMaintenance exampleWorld exampleProber = Inr False
   \<and> fst (Readyz exampleWorld exampleProber) = StatusOK
   \<and> fst (Readyz (exampleWorld\<lparr>clientIsNativeTransportEnabled := (\<lambda>k. Inr False)\<rparr>) exampleProber)
       = StatusServiceUnavailable"
proof -
  let ?w = "exampleWorld\<lparr>clientIsNativeTransportEnabled := (\<lambda>k. Inr False)\<rparr>"
  have a: "awaitPathsExist exampleWorld exampleProber = Inr True"
    by (simp add: awaitPathsExist_def exampleWorld_def exampleProber_def NewAggregate_def)
  have m: "isNodeUnderMaintenance exampleWorld exampleProber = Inr False"
    by (simp add: isNodeUnderMaintenance_def exampleWorld_def exampleProber_def
        exampleService_def)
  have a': "awaitPathsExist ?w exampleProber = Inr True"
    by (simp add: awaitPathsExist_def exampleWorld_def exampleProber_def NewAggregate_def)
  have m': "isNodeUnderMaintenance ?w exampleProber = Inr False"
    by (simp add: isNodeUnderMaintenance_def exampleWorld_def exampleProber_def
        exampleService_def)
  have ok: "fst (Readyz exampleWorld exampleProber) = StatusOK"
    using Readyz_ok_iff_up_normal_and_transport[OF a m]
    by (simp add: exampleWorld_def IsUN_def)
  have off: "fst (Readyz ?w exampleProber) = StatusServiceUnavailable"
    using Readyz_ok_iff_up_normal_and_transport[OF a' m']
    by (simp add: exampleWorld_def IsUN_def)
  show ?thesis using a m ok off by simp
qed


lemma awaitPathsExist_eq:
  "awaitPathsExist w p =
     (let errs = concat (map (\<lambda>path. case osStat w path of
                                         None \<Rightarrow> []
                                       | Some e \<Rightarrow> if isErrNotExist e then []
                                                   else [CantStatPath path e])
                             (awaitPaths p))
      in if errs = []
         then Inr (\<forall>path \<in> set (awaitPaths p).
                     case osStat w path of None \<Rightarrow> True | Some e \<Rightarrow> \<not> isErrNotExist e)
         else Inl (Aggregate errs))"
  by (simp add: awaitPathsExist_def awaitPathsLoop_result NewAggregate_def Let_def)

text \<open>
  C2 (as the code has it).  When the await-paths check passes and the lookup of the exposed
  service fails, both handlers write 503 (service unavailable), before any database-API call.
\<close>

theorem maintenance_lookup_failure_unavailable:
  assumes "awaitPathsExist w p = Inr True"
    and "serviceLister p (namespace p) (serviceName p) = Inl err"
  shows "Readyz w p = (StatusServiceUnavailable, [])
       \<and> Healthz w p = (StatusServiceUnavailable, [])"
  using assms by (simp add: Readyz_def Healthz_def isNodeUnderMaintenance_def)

theorem maintenance_lookup_failure_unavailable_witness:
  "awaitPathsExist exampleWorld (exampleProber\<lparr>serviceLister := (\<lambda>ns name. Inl (ErrOther ''cache not synced''))\<rparr>)
     = Inr True
   \<and> Readyz exampleWorld (exampleProber\<lparr>serviceLister := (\<lambda>ns name. Inl (ErrOther ''cache not synced''))\<rparr>)
     = (503, [])
   \<and> Healthz exampleWorld (exampleProber\<lparr>serviceLister := (\<lambda>ns name. Inl (ErrOther ''cache not synced''))\<rparr>)
     = (503, [])"
proof -
  let ?p = "exampleProber\<lparr>serviceLister := (\<lambda>ns name. Inl (ErrOther ''cache not synced''))\<rparr>"
  have a: "awaitPathsExist exampleWorld ?p = Inr True"
    by (simp add: awaitPathsExist_def exampleWorld_def exampleProber_def NewAggregate_def)
  have l: "serviceLister ?p (namespace ?p) (serviceName ?p) = Inl (ErrOther ''cache not synced'')"
    by simp
  show ?thesis
    using a maintenance_lookup_failure_unavailable[OF a l]
    by (simp add: StatusServiceUnavailable_def)
qed

theorem maintenance_lookup_failure_not_internal_error:
  "awaitPathsExist exampleWorld (exampleProber\<lparr>serviceLister := (\<lambda>ns name. Inl (ErrOther ''cache not synced''))\<rparr>)
     = Inr True
   \<and> isNodeUnderMaintenance exampleWorld (exampleProber\<lparr>serviceLister := (\<lambda>ns name. Inl (ErrOther ''cache not synced''))\<rparr>)
     = Inl (ErrOther ''cache not synced'')
   \<and> fst (Readyz exampleWorld (exampleProber\<lparr>serviceLister := (\<lambda>ns name. Inl (ErrOther ''cache not synced''))\<rparr>))
     \<noteq> StatusInternalServerError
   \<and> fst (Healthz exampleWorld (exampleProber\<lparr>serviceLister := (\<lambda>ns name. Inl (ErrOther ''cache not synced''))\<rparr>))
     \<noteq> StatusInternalServerError"
  by (simp add: awaitPathsExist_def exampleWorld_def exampleProber_def NewAggregate_def
      isNodeUnderMaintenance_def Readyz_def Healthz_def StatusInternalServerError_def
      StatusServiceUnavailable_def)

lemma readyzScan_transport_error:
  "i < length (filter (\<lambda>s. HostID s = hostID \<and> IsUN s) ss)
   \<Longrightarrow> query (k + i) = Inl err \<Longrightarrow> (\<forall>j < i. query (k + j) = Inr False)
   \<Longrightarrow> fst (readyzScan query hostID ss k) = StatusServiceUnavailable"
proof (induction ss arbitrary: k i)
  case Nil
  then show ?case by simp
next
  case (Cons s ss)
  show ?case
  proof (cases "HostID s = hostID \<and> IsUN s")
    case False
    then show ?thesis using Cons.IH[of i k] Cons.prems by auto
  next
    case True
    show ?thesis
    proof (cases i)
      case 0
      then show ?thesis using True Cons.prems by simp
    next
      case (Suc i')
      have q: "query k = Inr False" using Cons.prems(3) Suc by force
      have "fst (readyzScan query hostID ss (Suc k)) = StatusServiceUnavailable"
      proof (rule Cons.IH[of i' "Suc k"])
        show "i' < length (filter (\<lambda>s. HostID s = hostID \<and> IsUN s) ss)"
          using Cons.prems(1) True Suc by simp
        show "query (Suc k + i') = Inl err" using Cons.prems(2) Suc by simp
        show "\<forall>j<i'. query (Suc k + j) = Inr False"
        proof (intro allI impI)
          fix j assume "j < i'"
          then have "Suc j < i" using Suc by simp
          then have "query (k + Suc j) = Inr False" using Cons.prems(3) by blast
          then show "query (Suc k + j) = Inr False" by simp
        qed
      qed
      then show ?thesis using True q by simp
    qed
  qed
qed

text \<open>
  C3 (as the code has it).  In the database phase of \<open>Readyz\<close> an error of the node-status
  list call or of the local host-identifier call is answered with 500 (internal error);
  only an error of the native-transport query is answered with 503.
\<close>

theorem Readyz_database_errors:
  assumes "awaitPathsExist w p = Inr True" and "isNodeUnderMaintenance w p = Inr False"
    and "NewScyllaClientForLocalhost w = None"
  shows "(\<forall>err. clientStatus w = Inl err \<longrightarrow> fst (Readyz w p) = StatusInternalServerError)
       \<and> (\<forall>nodeStatuses err. clientStatus w = Inr nodeStatuses \<and> clientGetLocalHostId w = Inl err
            \<longrightarrow> fst (Readyz w p) = StatusInternalServerError)
       \<and> (\<forall>nodeStatuses hostID i err.
            clientStatus w = Inr nodeStatuses \<and> clientGetLocalHostId w = Inr hostID \<and>
            i < length (filter (\<lambda>s. HostID s = hostID \<and> IsUN s) nodeStatuses) \<and>
            clientIsNativeTransportEnabled w i = Inl err \<and>
            (\<forall>j < i. clientIsNativeTransportEnabled w j = Inr False)
            \<longrightarrow> fst (Readyz w p) = StatusServiceUnavailable)"
proof (intro conjI allI impI)
  fix err assume "clientStatus w = Inl err"
  then show "fst (Readyz w p) = StatusInternalServerError"
    using assms by (simp add: Readyz_def)
next
  fix nodeStatuses err
  assume "clientStatus w = Inr nodeStatuses \<and> clientGetLocalHostId w = Inl err"
  then show "fst (Readyz w p) = StatusInternalServerError"
    using assms by (simp add: Readyz_def)
next
  fix nodeStatuses hostID i err
  assume h: "clientStatus w = Inr nodeStatuses \<and> clientGetLocalHostId w = Inr hostID \<and>
            i < length (filter (\<lambda>s. HostID s = hostID \<and> IsUN s) nodeStatuses) \<and>
            clientIsNativeTransportEnabled w i = Inl err \<and>
            (\<forall>j < i. clientIsNativeTransportEnabled w j = Inr False)"
  then have "fst (Readyz w p)
      = fst (readyzScan (clientIsNativeTransportEnabled w) hostID nodeStatuses 0)"
    using Readyz_database_phase[OF assms] by blast
  moreover have "fst (readyzScan (clientIsNativeTransportEnabled w) hostID nodeStatuses 0)
      = StatusServiceUnavailable"
    using h readyzScan_transport_error[of i hostID nodeStatuses
        "clientIsNativeTransportEnabled w" 0 err]
    by simp
  ultimately show "fst (Readyz w p) = StatusServiceUnavailable" by simp
qed

theorem Readyz_database_errors_witness:
  "awaitPathsExist exampleWorld exampleProber = Inr True
   \<and> isNodeUnderMaintenance exampleWorld exampleProber = Inr False
   \<and> NewScyllaClientForLocalhost exampleWorld = None
   \<and> fst (Readyz (exampleWorld\<lparr>clientStatus := Inl (ErrOther ''timeout'')\<rparr>) exampleProber) = 500
   \<and> fst (Readyz (exampleWorld\<lparr>clientGetLocalHostId := Inl (ErrOther ''timeout'')\<rparr>) exampleProber) = 500
   \<and> fst (Readyz (exampleWorld\<lparr>clientIsNativeTransportEnabled := (\<lambda>k. Inl (ErrOther ''timeout''))\<rparr>)
            exampleProber) = 503"
proof -
  let ?w1 = "exampleWorld\<lparr>clientStatus := Inl (ErrOther ''timeout'')\<rparr>"
  let ?w2 = "exampleWorld\<lparr>clientGetLocalHostId := Inl (ErrOther ''timeout'')\<rparr>"
  let ?w3 = "exampleWorld\<lparr>clientIsNativeTransportEnabled := (\<lambda>k. Inl (ErrOther ''timeout''))\<rparr>"
  have a: "awaitPathsExist w exampleProber = Inr True" if "osStat w = (\<lambda>path. None)" for w
    using that by (simp add: awaitPathsExist_def exampleProber_def NewAggregate_def)
  have m: "isNodeUnderMaintenance w exampleProber = Inr False" for w
    by (simp add: isNodeUnderMaintenance_def exampleProber_def exampleService_def)
  have s: "osStat exampleWorld = (\<lambda>path. None)" "osStat ?w1 = (\<lambda>path. None)"
    "osStat ?w2 = (\<lambda>path. None)" "osStat ?w3 = (\<lambda>path. None)"
    by (simp_all add: exampleWorld_def)
  have c: "NewScyllaClientForLocalhost exampleWorld = None" "NewScyllaClientForLocalhost ?w1 = None"
    "NewScyllaClientForLocalhost ?w2 = None" "NewScyllaClientForLocalhost ?w3 = None"
    by (simp_all add: exampleWorld_def)
  have r1: "fst (Readyz ?w1 exampleProber) = 500"
    using Readyz_database_errors[OF a[OF s(2)] m c(2)]
    by (simp add: StatusInternalServerError_def)
  have r2: "fst (Readyz ?w2 exampleProber) = 500"
    using Readyz_database_errors[OF a[OF s(3)] m c(3)]
    by (simp add: StatusInternalServerError_def exampleWorld_def)
  have r3: "fst (Readyz ?w3 exampleProber) = 503"
    using Readyz_database_errors[OF a[OF s(4)] m c(4)]
    by (simp add: StatusServiceUnavailable_def exampleWorld_def IsUN_def)
  show ?thesis using a[OF s(1)] m c(1) r1 r2 r3 by simp
qed

theorem Readyz_status_error_is_internal_error:
  "awaitPathsExist (exampleWorld\<lparr>clientStatus := Inl (ErrOther ''timeout'')\<rparr>) exampleProber = Inr True
   \<and> isNodeUnderMaintenance (exampleWorld\<lparr>clientStatus := Inl (ErrOther ''timeout'')\<rparr>) exampleProber
       = Inr False
   \<and> NewScyllaClientForLocalhost (exampleWorld\<lparr>clientStatus := Inl (ErrOther ''timeout'')\<rparr>) = None
   \<and> fst (Readyz (exampleWorld\<lparr>clientStatus := Inl (ErrOther ''timeout'')\<rparr>) exampleProber)
       = StatusInternalServerError
   \<and> fst (Readyz (exampleWorld\<lparr>clientStatus := Inl (ErrOther ''timeout'')\<rparr>) exampleProber)
       \<noteq> StatusServiceUnavailable"
  by (simp add: awaitPathsExist_def exampleWorld_def exampleProber_def NewAggregate_def
      isNodeUnderMaintenance_def exampleService_def Readyz_def StatusInternalServerError_def
      StatusServiceUnavailable_def)


text \<open>
  C8.  With a non-empty await-paths list whose every stat fails with "path absent",
  \<open>Readyz\<close> writes 503 and \<open>Healthz\<close> writes 200.  If some stat fails for another reason,
  the failures other than absence are wrapped, in the order of the paths, into one composite
  error, and both handlers write 500.
\<close>

theorem await_paths_outcomes:
  "(awaitPaths p \<noteq> [] \<and>
    (\<forall>path \<in> set (awaitPaths p). \<exists>e. osStat w path = Some e \<and> isErrNotExist e)
      \<longrightarrow> awaitPathsExist w p = Inr False
          \<and> Readyz w p = (StatusServiceUnavailable, [])
          \<and> Healthz w p = (StatusOK, []))
   \<and> ((\<exists>path \<in> set (awaitPaths p). \<exists>e. osStat w path = Some e \<and> \<not> isErrNotExist e)
      \<longrightarrow> awaitPathsExist w p =
            Inl (Aggregate
                  (map (\<lambda>path. CantStatPath path (the (osStat w path)))
                       (filter (\<lambda>path. \<exists>e. osStat w path = Some e \<and> \<not> isErrNotExist e)
                               (awaitPaths p))))
          \<and> Readyz w p = (StatusInternalServerError, [])
          \<and> Healthz w p = (StatusInternalServerError, []))"
proof (intro conjI impI)
  assume h: "awaitPaths p \<noteq> [] \<and>
    (\<forall>path \<in> set (awaitPaths p). \<exists>e. osStat w path = Some e \<and> isErrNotExist e)"
  have none: "concat (map (\<lambda>path. case osStat w path of
                                     None \<Rightarrow> []
                                   | Some e \<Rightarrow> if isErrNotExist e then []
                                               else [CantStatPath path e])
                          (awaitPaths p)) = []"
    using h by (auto split: option.splits)
  obtain path where pin: "path \<in> set (awaitPaths p)"
    using h by (cases "awaitPaths p") auto
  then obtain e where "osStat w path = Some e" and "isErrNotExist e"
    using h by blast
  then have "\<not> (case osStat w path of None \<Rightarrow> True | Some e \<Rightarrow> \<not> isErrNotExist e)"
    by simp
  then have "\<not> (\<forall>path \<in> set (awaitPaths p).
                  case osStat w path of None \<Rightarrow> True | Some e \<Rightarrow> \<not> isErrNotExist e)"
    using pin by blast
  then show a: "awaitPathsExist w p = Inr False"
    using none by (simp add: awaitPathsExist_eq)
  show "Readyz w p = (StatusServiceUnavailable, [])" using a by (simp add: Readyz_def)
  show "Healthz w p = (StatusOK, [])" using a by (simp add: Healthz_def)
next
  assume h: "\<exists>path \<in> set (awaitPaths p). \<exists>e. osStat w path = Some e \<and> \<not> isErrNotExist e"
  have eq: "concat (map (\<lambda>path. case osStat w path of
                                   None \<Rightarrow> []
                                 | Some e \<Rightarrow> if isErrNotExist e then []
                                             else [CantStatPath path e]) paths)
          = map (\<lambda>path. CantStatPath path (the (osStat w path)))
                (filter (\<lambda>path. \<exists>e. osStat w path = Some e \<and> \<not> isErrNotExist e) paths)"
    for paths
    by (induction paths) (auto split: option.splits)
  have ne: "filter (\<lambda>path. \<exists>e. osStat w path = Some e \<and> \<not> isErrNotExist e) (awaitPaths p) \<noteq> []"
    using h by (auto simp: filter_empty_conv)
  show a: "awaitPathsExist w p =
            Inl (Aggregate
                  (map (\<lambda>path. CantStatPath path (the (osStat w path)))
                       (filter (\<lambda>path. \<exists>e. osStat w path = Some e \<and> \<not> isErrNotExist e)
                               (awaitPaths p))))"
    using ne by (simp add: awaitPathsExist_eq eq Let_def)
  show "Readyz w p = (StatusInternalServerError, [])" using a by (simp add: Readyz_def)
  show "Healthz w p = (StatusInternalServerError, [])" using a by (simp add: Healthz_def)
qed

theorem await_paths_outcomes_witness:
  "Readyz (exampleWorld\<lparr>osStat := (\<lambda>path. Some ErrNotExist)\<rparr>) exampleProber = (503, [])
   \<and> Healthz (exampleWorld\<lparr>osStat := (\<lambda>path. Some ErrNotExist)\<rparr>) exampleProber = (200, [])
   \<and> awaitPathsExist
        (exampleWorld\<lparr>osStat := (\<lambda>path. if path = ''/mnt/ready'' then Some ErrNotExist
                                          else Some (ErrOther ''permission denied''))\<rparr>)
        (exampleProber\<lparr>awaitPaths := [''/a'', ''/mnt/ready'', ''/b'']\<rparr>)
      = Inl (Aggregate [CantStatPath ''/a'' (ErrOther ''permission denied''),
                        CantStatPath ''/b'' (ErrOther ''permission denied'')])
   \<and> Readyz
        (exampleWorld\<lparr>osStat := (\<lambda>path. if path = ''/mnt/ready'' then Some ErrNotExist
                                          else Some (ErrOther ''permission denied''))\<rparr>)
        (exampleProber\<lparr>awaitPaths := [''/a'', ''/mnt/ready'', ''/b'']\<rparr>) = (500, [])
   \<and> Healthz
        (exampleWorld\<lparr>osStat := (\<lambda>path. if path = ''/mnt/ready'' then Some ErrNotExist
                                          else Some (ErrOther ''permission denied''))\<rparr>)
        (exampleProber\<lparr>awaitPaths := [''/a'', ''/mnt/ready'', ''/b'']\<rparr>) = (500, [])"
proof -
  let ?w1 = "exampleWorld\<lparr>osStat := (\<lambda>path. Some ErrNotExist)\<rparr>"
  let ?w2 = "exampleWorld\<lparr>osStat := (\<lambda>path. if path = ''/mnt/ready'' then Some ErrNotExist
                                          else Some (ErrOther ''permission denied''))\<rparr>"
  let ?p2 = "exampleProber\<lparr>awaitPaths := [''/a'', ''/mnt/ready'', ''/b'']\<rparr>"
  have h1: "awaitPaths exampleProber \<noteq> [] \<and>
      (\<forall>path \<in> set (awaitPaths exampleProber). \<exists>e. osStat ?w1 path = Some e \<and> isErrNotExist e)"
    by (simp add: exampleProber_def)
  have h2: "\<exists>path \<in> set (awaitPaths ?p2). \<exists>e. osStat ?w2 path = Some e \<and> \<not> isErrNotExist e"
    by simp
  have f: "filter (\<lambda>path. \<exists>e. osStat ?w2 path = Some e \<and> \<not> isErrNotExist e) (awaitPaths ?p2)
      = [''/a'', ''/b'']"
    by simp
  from await_paths_outcomes[of exampleProber ?w1] h1
  have r1: "Readyz ?w1 exampleProber = (503, []) \<and> Healthz ?w1 exampleProber = (200, [])"
    by (simp add: StatusServiceUnavailable_def StatusOK_def)
  from await_paths_outcomes[of ?p2 ?w2] h2
  have r2: "awaitPathsExist ?w2 ?p2 =
            Inl (Aggregate
                  (map (\<lambda>path. CantStatPath path (the (osStat ?w2 path)))
                       (filter (\<lambda>path. \<exists>e. osStat ?w2 path = Some e \<and> \<not> isErrNotExist e)
                               (awaitPaths ?p2))))
          \<and> Readyz ?w2 ?p2 = (StatusInternalServerError, [])
          \<and> Healthz ?w2 ?p2 = (StatusInternalServerError, [])"
    by blast
  have r2a: "awaitPathsExist ?w2 ?p2
      = Inl (Aggregate [CantStatPath ''/a'' (ErrOther ''permission denied''),
                        CantStatPath ''/b'' (ErrOther ''permission denied'')])"
    using r2 unfolding f by simp
  show ?thesis using r1 r2 r2a by (simp add: StatusInternalServerError_def)
qed

text \<open>
  C9.  When the await-paths check passes and the exposed service carries the maintenance
  label, \<open>Readyz\<close> writes 503 and \<open>Healthz\<close> writes 200, neither makes any database-API call,
  and the outcome is the same whatever the database API would answer.
\<close>

theorem maintenance_label_outcomes:
  assumes "awaitPathsExist w p = Inr True"
    and "serviceLister p (namespace p) (serviceName p) = Inr svc"
    and "svcLabels svc (NodeMaintenanceLabel w) = Some v"
  shows "Readyz w p = (StatusServiceUnavailable, [])
       \<and> Healthz w p = (StatusOK, [])
       \<and> (\<forall>newClient status hostId transport ping.
            Readyz (w\<lparr>NewScyllaClientForLocalhost := newClient, clientStatus := status,
                      clientGetLocalHostId := hostId,
                      clientIsNativeTransportEnabled := transport, clientPing := ping\<rparr>) p
              = (StatusServiceUnavailable, [])
          \<and> Healthz (w\<lparr>NewScyllaClientForLocalhost := newClient, clientStatus := status,
                        clientGetLocalHostId := hostId,
                        clientIsNativeTransportEnabled := transport, clientPing := ping\<rparr>) p
              = (StatusOK, []))"
proof -
  have m: "isNodeUnderMaintenance w' p = Inr True"
    if "NodeMaintenanceLabel w' = NodeMaintenanceLabel w" for w'
    using assms(2,3) that by (simp add: isNodeUnderMaintenance_def)
  have a: "awaitPathsExist w' p = Inr True" if "osStat w' = osStat w" for w'
    using assms(1) that by (simp add: awaitPathsExist_def)
  have r: "Readyz w' p = (StatusServiceUnavailable, []) \<and> Healthz w' p = (StatusOK, [])"
    if "NodeMaintenanceLabel w' = NodeMaintenanceLabel w" and "osStat w' = osStat w" for w'
    using m[OF that(1)] a[OF that(2)] by (simp add: Readyz_def Healthz_def)
  show ?thesis
  proof (intro conjI allI)
    show "Readyz w p = (StatusServiceUnavailable, [])" using r[of w] by simp
    show "Healthz w p = (StatusOK, [])" using r[of w] by simp
  next
    fix newClient status hostId transport ping
    let ?w = "w\<lparr>NewScyllaClientForLocalhost := newClient, clientStatus := status,
                clientGetLocalHostId := hostId,
                clientIsNativeTransportEnabled := transport, clientPing := ping\<rparr>"
    show "Readyz ?w p = (StatusServiceUnavailable, [])" using r[of ?w] by simp
    show "Healthz ?w p = (StatusOK, [])" using r[of ?w] by simp
  qed
qed

theorem maintenance_label_outcomes_witness:
  "awaitPathsExist exampleWorld
     (exampleProber\<lparr>serviceLister :=
        (\<lambda>ns name. Inr (exampleService\<lparr>svcLabels := [''scylla/node-maintenance'' \<mapsto> '''']\<rparr>))\<rparr>)
     = Inr True
   \<and> Readyz exampleWorld
       (exampleProber\<lparr>serviceLister :=
          (\<lambda>ns name. Inr (exampleService\<lparr>svcLabels := [''scylla/node-maintenance'' \<mapsto> '''']\<rparr>))\<rparr>)
       = (503, [])
   \<and> Healthz (exampleWorld\<lparr>clientPing := Some (ErrOther ''connection refused'')\<rparr>)
       (exampleProber\<lparr>serviceLister :=
          (\<lambda>ns name. Inr (exampleService\<lparr>svcLabels := [''scylla/node-maintenance'' \<mapsto> '''']\<rparr>))\<rparr>)
       = (200, [])"
proof -
  let ?svc = "exampleService\<lparr>svcLabels := [''scylla/node-maintenance'' \<mapsto> '''']\<rparr>"
  let ?p = "exampleProber\<lparr>serviceLister := (\<lambda>ns name. Inr ?svc)\<rparr>"
  let ?w = "exampleWorld\<lparr>clientPing := Some (ErrOther ''connection refused'')\<rparr>"
  have a: "awaitPathsExist exampleWorld ?p = Inr True"
    by (simp add: awaitPathsExist_def exampleWorld_def exampleProber_def NewAggregate_def)
  have a': "awaitPathsExist ?w ?p = Inr True"
    by (simp add: awaitPathsExist_def exampleWorld_def exampleProber_def NewAggregate_def)
  have l: "serviceLister ?p (namespace ?p) (serviceName ?p) = Inr ?svc" by simp
  have v: "svcLabels ?svc (NodeMaintenanceLabel exampleWorld) = Some ''''"
    by (simp add: exampleWorld_def)
  have v': "svcLabels ?svc (NodeMaintenanceLabel ?w) = Some ''''"
    by (simp add: exampleWorld_def)
  show ?thesis
    using a maintenance_label_outcomes[OF a l v] maintenance_label_outcomes[OF a' l v']
    by (simp add: StatusServiceUnavailable_def StatusOK_def)
qed


section \<open>The datacenter status\<close>

text \<open>
  C7 (as the code has it).  Without a workload object \<open>calculateRackStatus\<close> returns the
  status with the five node counts zero, \<open>Stale\<close> true and the name and both versions
  empty.  With a workload object whose replica count \<^verbatim>\<open>Spec.Replicas\<close> is set it returns a
  status whose \<open>Stale\<close> is true exactly when the observed generation is strictly less than
  the generation; equal generations give false.  With a workload object whose replica count
  is nil nothing is returned: \<^verbatim>\<open>*sts.Spec.Replicas\<close> panics.
\<close>

theorem calculateRackStatus_absent_and_stale:
  "calculateRackStatus sdcc h sdc None =
     Some \<lparr> rackName = [], rackCurrentVersion = [], rackUpdatedVersion = [],
            rackNodes = Some 0, rackCurrentNodes = Some 0, rackUpdatedNodes = Some 0,
            rackReadyNodes = Some 0, rackAvailableNodes = Some 0, rackStale = Some True \<rparr>
   \<and> (\<forall>sts. Replicas (stsSpec sts) \<noteq> None \<longrightarrow>
         (\<exists>status. calculateRackStatus sdcc h sdc (Some sts) = Some status
            \<and> rackStale status
                = Some (sint (stsObservedGeneration (stsStatus sts)) < sint (stsGeneration sts))
            \<and> (stsObservedGeneration (stsStatus sts) = stsGeneration sts
                 \<longrightarrow> rackStale status = Some False)))"
proof (intro conjI allI impI)
  show "calculateRackStatus sdcc h sdc None =
     Some \<lparr> rackName = [], rackCurrentVersion = [], rackUpdatedVersion = [],
            rackNodes = Some 0, rackCurrentNodes = Some 0, rackUpdatedNodes = Some 0,
            rackReadyNodes = Some 0, rackAvailableNodes = Some 0, rackStale = Some True \<rparr>"
    by (simp add: calculateRackStatus_def)
next
  fix sts :: StatefulSet
  assume "Replicas (stsSpec sts) \<noteq> None"
  then obtain replicas where r: "Replicas (stsSpec sts) = Some replicas" by blast
  show "\<exists>status. calculateRackStatus sdcc h sdc (Some sts) = Some status
            \<and> rackStale status
                = Some (sint (stsObservedGeneration (stsStatus sts)) < sint (stsGeneration sts))
            \<and> (stsObservedGeneration (stsStatus sts) = stsGeneration sts
                 \<longrightarrow> rackStale status = Some False)"
  proof (cases "replicas = 0")
    case True
    then show ?thesis using r
      by (simp add: calculateRackStatus_def Let_def word_sless_alt)
  next
    case False
    then show ?thesis using r
      by (cases "getScyllaVersion sdcc h sts")
         (simp_all add: calculateRackStatus_def Let_def word_sless_alt)
  qed
qed

theorem calculateRackStatus_absent_and_stale_witness:
  "Replicas (stsSpec exampleStatefulSet) \<noteq> None
   \<and> (\<exists>status. calculateRackStatus exampleController exampleHelpers exampleDatacenter
                  (Some exampleStatefulSet) = Some status
               \<and> rackStale status = Some False)
   \<and> (\<exists>status. calculateRackStatus exampleController exampleHelpers exampleDatacenter
                  (Some (exampleStatefulSet\<lparr>stsGeneration := 3\<rparr>)) = Some status
               \<and> rackStale status = Some True)"
proof -
  have r: "Replicas (stsSpec exampleStatefulSet) \<noteq> None"
    by (simp add: exampleStatefulSet_def)
  have r': "Replicas (stsSpec (exampleStatefulSet\<lparr>stsGeneration := 3\<rparr>)) \<noteq> None"
    by (simp add: exampleStatefulSet_def)
  have all: "\<forall>sts. Replicas (stsSpec sts) \<noteq> None \<longrightarrow>
         (\<exists>status. calculateRackStatus exampleController exampleHelpers exampleDatacenter (Some sts)
                     = Some status
            \<and> rackStale status
                = Some (sint (stsObservedGeneration (stsStatus sts)) < sint (stsGeneration sts))
            \<and> (stsObservedGeneration (stsStatus sts) = stsGeneration sts
                 \<longrightarrow> rackStale status = Some False))"
    using calculateRackStatus_absent_and_stale[of exampleController exampleHelpers
        exampleDatacenter]
    by blast
  have g: "sint (stsObservedGeneration (stsStatus exampleStatefulSet))
           < sint (stsGeneration exampleStatefulSet) \<longleftrightarrow> False"
    by (simp add: exampleStatefulSet_def)
  have g': "sint (stsObservedGeneration (stsStatus (exampleStatefulSet\<lparr>stsGeneration := 3\<rparr>)))
           < sint (stsGeneration (exampleStatefulSet\<lparr>stsGeneration := 3\<rparr>)) \<longleftrightarrow> True"
    by (simp add: exampleStatefulSet_def)
  from all r obtain s1 where
    "calculateRackStatus exampleController exampleHelpers exampleDatacenter
       (Some exampleStatefulSet) = Some s1"
    and "rackStale s1 = Some (sint (stsObservedGeneration (stsStatus exampleStatefulSet))
                              < sint (stsGeneration exampleStatefulSet))"
    by blast
  then have "\<exists>status. calculateRackStatus exampleController exampleHelpers exampleDatacenter
                  (Some exampleStatefulSet) = Some status \<and> rackStale status = Some False"
    using g by simp
  moreover from all r' obtain s2 where
    "calculateRackStatus exampleController exampleHelpers exampleDatacenter
       (Some (exampleStatefulSet\<lparr>stsGeneration := 3\<rparr>)) = Some s2"
    and "rackStale s2
         = Some (sint (stsObservedGeneration (stsStatus (exampleStatefulSet\<lparr>stsGeneration := 3\<rparr>)))
                 < sint (stsGeneration (exampleStatefulSet\<lparr>stsGeneration := 3\<rparr>)))"
    by blast
  then have "\<exists>status. calculateRackStatus exampleController exampleHelpers
                  exampleDatacenter (Some (exampleStatefulSet\<lparr>stsGeneration := 3\<rparr>)) = Some status
               \<and> rackStale status = Some True"
    using g' by simp
  ultimately show ?thesis using r by blast
qed


theorem calculateRackStatus_nil_replicas_returns_nothing:
  "calculateRackStatus exampleController exampleHelpers exampleDatacenter
     (Some (exampleStatefulSet\<lparr>stsSpec := \<lparr> Replicas = None \<rparr>\<rparr>)) = None"
  by (simp add: calculateRackStatus_def)

lemma aggregateLoop_sums:
  "aggregateLoop racks acc = Some acc' \<Longrightarrow>
     (\<forall>r \<in> set racks. rackNodes r \<noteq> None \<and> rackReadyNodes r \<noteq> None \<and> rackAvailableNodes r \<noteq> None)
     \<and> fst acc' = fst acc + sum_list (map (\<lambda>r. the (rackNodes r)) racks)
     \<and> fst (snd acc') = fst (snd acc) + sum_list (map (\<lambda>r. the (rackReadyNodes r)) racks)
     \<and> snd (snd acc') = snd (snd acc) + sum_list (map (\<lambda>r. the (rackAvailableNodes r)) racks)"
proof (induction racks acc rule: aggregateLoop.induct)
  case (1 acc)
  then show ?case by simp
next
  case (2 rackStatus rest nodes ready available)
  from "2.prems" obtain n r a where
    f: "rackNodes rackStatus = Some n" "rackReadyNodes rackStatus = Some r"
       "rackAvailableNodes rackStatus = Some a"
    and rec: "aggregateLoop rest (nodes + n, ready + r, available + a) = Some acc'"
    by (auto split: option.splits)
  from "2.IH"[OF f rec] f show ?case by (simp add: add.assoc)
qed

lemma aggregateLoop_returns:
  "(\<forall>r \<in> set racks. rackNodes r \<noteq> None \<and> rackReadyNodes r \<noteq> None \<and> rackAvailableNodes r \<noteq> None)
   \<Longrightarrow> \<exists>acc'. aggregateLoop racks acc = Some acc'"
  by (induction racks acc rule: aggregateLoop.induct) auto


lemma updateAggregatedStatusFields_sums:
  assumes "updateAggregatedStatusFields given = Some status"
  shows "status = given\<lparr>Nodes := Nodes status, ReadyNodes := ReadyNodes status,
                         AvailableNodes := AvailableNodes status\<rparr>"
    and "\<forall>r \<in> set (Racks status).
           rackNodes r \<noteq> None \<and> rackReadyNodes r \<noteq> None \<and> rackAvailableNodes r \<noteq> None"
    and "Nodes status = Some (sum_list (map (\<lambda>r. the (rackNodes r)) (Racks status)))"
    and "ReadyNodes status = Some (sum_list (map (\<lambda>r. the (rackReadyNodes r)) (Racks status)))"
    and "AvailableNodes status
         = Some (sum_list (map (\<lambda>r. the (rackAvailableNodes r)) (Racks status)))"
proof -
  from assms obtain nodes ready available where
    l: "aggregateLoop (Racks given) (0, 0, 0) = Some (nodes, ready, available)"
    and s: "status = given\<lparr>Nodes := Some nodes, ReadyNodes := Some ready,
                            AvailableNodes := Some available\<rparr>"
    by (auto simp: updateAggregatedStatusFields_def split: option.splits)
  note a = aggregateLoop_sums[OF l]
  show "status = given\<lparr>Nodes := Nodes status, ReadyNodes := ReadyNodes status,
                         AvailableNodes := AvailableNodes status\<rparr>"
    using s by simp
  show "\<forall>r \<in> set (Racks status).
           rackNodes r \<noteq> None \<and> rackReadyNodes r \<noteq> None \<and> rackAvailableNodes r \<noteq> None"
    using a s by simp
  show "Nodes status = Some (sum_list (map (\<lambda>r. the (rackNodes r)) (Racks status)))"
    using a s by simp
  show "ReadyNodes status = Some (sum_list (map (\<lambda>r. the (rackReadyNodes r)) (Racks status)))"
    using a s by simp
  show "AvailableNodes status
         = Some (sum_list (map (\<lambda>r. the (rackAvailableNodes r)) (Racks status)))"
    using a s by simp
qed

lemma calculateStatus_aggregated:
  assumes "calculateStatus sdcc h sdc m = Some status"
  shows "\<exists>racks. updateAggregatedStatusFields
           ((Status sdc)\<lparr>ObservedGeneration := Some (Generation sdc), Racks := racks\<rparr>)
         = Some status"
  using assms by (auto simp: calculateStatus_def Let_def split: option.splits)


lemma calculateRackStatus_returns:
  assumes "\<forall>sts. stsOpt = Some sts \<longrightarrow> Replicas (stsSpec sts) \<noteq> None"
  shows "\<exists>status. calculateRackStatus sdcc h sdc stsOpt = Some status
           \<and> rackNodes status \<noteq> None \<and> rackReadyNodes status \<noteq> None
           \<and> rackAvailableNodes status \<noteq> None"
proof (cases stsOpt)
  case None
  then show ?thesis by (simp add: calculateRackStatus_def)
next
  case (Some sts)
  then obtain replicas where r: "Replicas (stsSpec sts) = Some replicas"
    using assms by auto
  show ?thesis
    using Some r
    by (cases "getScyllaVersion sdcc h sts")
       (simp_all add: calculateRackStatus_def Let_def)
qed

lemma calculateRacks_returns:
  assumes "\<forall>name sts. m name = Some sts \<longrightarrow> Replicas (stsSpec sts) \<noteq> None"
    and "\<forall>r \<in> set racks. rackNodes r \<noteq> None \<and> rackReadyNodes r \<noteq> None
                           \<and> rackAvailableNodes r \<noteq> None"
  shows "\<exists>result. calculateRacks sdcc h sdc m specs racks = Some result
           \<and> (\<forall>r \<in> set result. rackNodes r \<noteq> None \<and> rackReadyNodes r \<noteq> None
                                  \<and> rackAvailableNodes r \<noteq> None)"
  using assms(2)
proof (induction specs arbitrary: racks)
  case Nil
  then show ?case by simp
next
  case (Cons rack rest)
  let ?name = "StatefulSetNameForRack h rack sdc"
  have "\<forall>sts. m ?name = Some sts \<longrightarrow> Replicas (stsSpec sts) \<noteq> None"
    using assms(1) by blast
  from calculateRackStatus_returns[OF this, of sdcc h sdc]
  obtain status where s: "calculateRackStatus sdcc h sdc (m ?name) = Some status"
    and ok: "rackNodes status \<noteq> None \<and> rackReadyNodes status \<noteq> None
             \<and> rackAvailableNodes status \<noteq> None"
    by blast
  have "\<forall>r \<in> set (racks @ [status]). rackNodes r \<noteq> None \<and> rackReadyNodes r \<noteq> None
                           \<and> rackAvailableNodes r \<noteq> None"
    using Cons.prems ok by auto
  from Cons.IH[OF this] show ?case using s by (simp add: Let_def)
qed

text \<open>
  \<open>calculateStatus\<close> returns a status whenever every observed workload object has its
  replica count set.
\<close>

lemma calculateStatus_returns:
  assumes "\<forall>name sts. m name = Some sts \<longrightarrow> Replicas (stsSpec sts) \<noteq> None"
  shows "\<exists>status. calculateStatus sdcc h sdc m = Some status"
proof -
  from calculateRacks_returns[OF assms, of "[]" sdcc h sdc "specRacks (Spec sdc)"]
  obtain racks where r: "calculateRacks sdcc h sdc m (specRacks (Spec sdc)) [] = Some racks"
    and ok: "\<forall>r \<in> set racks. rackNodes r \<noteq> None \<and> rackReadyNodes r \<noteq> None
                               \<and> rackAvailableNodes r \<noteq> None"
    by auto
  from aggregateLoop_returns[OF ok, of "(0, 0, 0)"]
  obtain acc where "aggregateLoop racks (0, 0, 0) = Some acc" by blast
  then show ?thesis
    using r by (cases acc) (simp add: calculateStatus_def Let_def updateAggregatedStatusFields_def)
qed



lemma example_calculateStatus:
  "calculateStatus exampleController exampleHelpers exampleDatacenter exampleStatefulSets
   = Some exampleComputedStatus"
  by (simp add: calculateStatus_def calculateRackStatus_def getScyllaVersion_def
      GetControllerOfNoCopy_def labelValue_def updateAggregatedStatusFields_def
      exampleController_def exampleHelpers_def exampleDatacenter_def exampleStatefulSets_def
      exampleStatefulSet_def examplePod_def exampleComputedStatus_def Let_def)



text \<open>
  C10.  The status computed by \<open>calculateStatus\<close> is the previous status of the datacenter
  with \<open>ObservedGeneration\<close>, \<open>Racks\<close> and the three aggregated counts replaced: the
  conditions and every other field are those of the previous status.
\<close>

theorem calculateStatus_frame:
  assumes "calculateStatus sdcc h sdc m = Some status"
  shows "Conditions status = Conditions (Status sdc)
       \<and> ScyllaDBDatacenterStatus.more status = ScyllaDBDatacenterStatus.more (Status sdc)
       \<and> status = (Status sdc)\<lparr>ObservedGeneration := Some (Generation sdc),
                                 Racks := Racks status, Nodes := Nodes status,
                                 ReadyNodes := ReadyNodes status,
                                 AvailableNodes := AvailableNodes status\<rparr>"
proof -
  from calculateStatus_aggregated[OF assms] obtain racks where
    u: "updateAggregatedStatusFields
          ((Status sdc)\<lparr>ObservedGeneration := Some (Generation sdc), Racks := racks\<rparr>)
        = Some status"
    by blast
  from updateAggregatedStatusFields_sums(1)[OF u]
  have s: "status = (Status sdc)\<lparr>ObservedGeneration := Some (Generation sdc), Racks := racks,
                                  Nodes := Nodes status, ReadyNodes := ReadyNodes status,
                                  AvailableNodes := AvailableNodes status\<rparr>"
    by simp
  have r: "Racks status = racks" by (subst s) simp
  have c: "Conditions status = Conditions (Status sdc)" by (subst s) simp
  have m: "ScyllaDBDatacenterStatus.more status = ScyllaDBDatacenterStatus.more (Status sdc)"
    by (subst s) simp
  show ?thesis using s r c m by simp
qed

theorem calculateStatus_frame_witness:
  "calculateStatus exampleController exampleHelpers exampleDatacenter exampleStatefulSets
     = Some exampleComputedStatus
   \<and> Conditions exampleComputedStatus
     = [\<lparr> condType = ''Available'', condStatus = ConditionTrue, condObservedGeneration = 4,
          condLastTransitionTime = 17, condReason = ''AsExpected'', condMessage = [] \<rparr>]
   \<and> Nodes (Status exampleDatacenter) = Some 7 \<and> Nodes exampleComputedStatus = Some 3"
proof -
  have "Conditions exampleComputedStatus = Conditions (Status exampleDatacenter)"
    using calculateStatus_frame[OF example_calculateStatus] by blast
  then show ?thesis
    using example_calculateStatus
    by (simp add: exampleDatacenter_def) (simp add: exampleComputedStatus_def)
qed


lemma calculateRackStatus_ignores_status:
  "calculateRackStatus sdcc h (sdc\<lparr>Status := anyStatus\<rparr>) stsOpt
   = calculateRackStatus sdcc h sdc stsOpt"
  by (simp add: calculateRackStatus_def Let_def split: option.splits)

lemma calculateRacks_ignores_status:
  assumes "\<forall>rack. StatefulSetNameForRack h rack (sdc\<lparr>Status := anyStatus\<rparr>)
                  = StatefulSetNameForRack h rack sdc"
  shows "calculateRacks sdcc h (sdc\<lparr>Status := anyStatus\<rparr>) m specs racks
         = calculateRacks sdcc h sdc m specs racks"
  using assms
  by (induction specs arbitrary: racks)
     (simp_all add: calculateRackStatus_ignores_status Let_def split: option.splits)

lemma updateAggregatedStatusFields_idem:
  assumes "updateAggregatedStatusFields given = Some status"
  shows "updateAggregatedStatusFields status = Some status"
proof -
  from assms obtain nodes ready available where
    l: "aggregateLoop (Racks given) (0, 0, 0) = Some (nodes, ready, available)"
    and s: "status = given\<lparr>Nodes := Some nodes, ReadyNodes := Some ready,
                            AvailableNodes := Some available\<rparr>"
    by (auto simp: updateAggregatedStatusFields_def split: option.splits)
  show ?thesis using l by (simp add: s updateAggregatedStatusFields_def)
qed

lemma updateAggregatedStatusFields_idem_conditions:
  assumes "updateAggregatedStatusFields given = Some status"
  shows "updateAggregatedStatusFields (status\<lparr>Conditions := conditions\<rparr>)
         = Some (status\<lparr>Conditions := conditions\<rparr>)"
proof -
  from assms obtain nodes ready available where
    l: "aggregateLoop (Racks given) (0, 0, 0) = Some (nodes, ready, available)"
    and s: "status = given\<lparr>Nodes := Some nodes, ReadyNodes := Some ready,
                            AvailableNodes := Some available\<rparr>"
    by (auto simp: updateAggregatedStatusFields_def split: option.splits)
  show ?thesis using l by (simp add: s updateAggregatedStatusFields_def)
qed

lemma calculateStatus_again:
  assumes ign: "\<forall>rack anyStatus. StatefulSetNameForRack h rack (sdc\<lparr>Status := anyStatus\<rparr>)
                  = StatefulSetNameForRack h rack sdc"
    and c: "calculateStatus sdcc h sdc m = Some computed"
    and same: "previous = computed\<lparr>Conditions := conditions\<rparr>"
  shows "calculateStatus sdcc h (sdc\<lparr>Status := previous\<rparr>) m = Some previous"
proof -
  from c obtain racks where
    r: "calculateRacks sdcc h sdc m (specRacks (Spec sdc)) [] = Some racks"
    and u: "updateAggregatedStatusFields
              ((Status sdc)\<lparr>ObservedGeneration := Some (Generation sdc), Racks := racks\<rparr>)
            = Some computed"
    by (auto simp: calculateStatus_def Let_def split: option.splits)
  from u obtain nodes ready available where
    l: "aggregateLoop racks (0, 0, 0) = Some (nodes, ready, available)"
    and s: "computed = (Status sdc)\<lparr>ObservedGeneration := Some (Generation sdc), Racks := racks,
                                     Nodes := Some nodes, ReadyNodes := Some ready,
                                     AvailableNodes := Some available\<rparr>"
    by (auto simp: updateAggregatedStatusFields_def split: option.splits)
  have r': "calculateRacks sdcc h (sdc\<lparr>Status := previous\<rparr>) m (specRacks (Spec sdc)) []
            = Some racks"
    using calculateRacks_ignores_status[of h previous sdc sdcc m] ign r by simp
  show ?thesis
    using r' l by (simp add: calculateStatus_def Let_def updateAggregatedStatusFields_def same s)
qed


lemma prewarmedNode_stays_false:
  "\<not> fst (prewarmedNode sdcc h sdc services rack ord False)"
  by (simp add: prewarmedNode_def Let_def split: option.splits sum.splits)

lemma prewarmedNode_break_false:
  "snd (prewarmedNode sdcc h sdc services rack ord prewarmed)
   \<Longrightarrow> \<not> fst (prewarmedNode sdcc h sdc services rack ord prewarmed)"
  by (simp add: prewarmedNode_def Let_def split: option.splits sum.splits if_splits)

lemma sint_succ_less:
  fixes ord n :: int32
  assumes "sint ord < sint n"
  shows "sint (ord + 1) = sint ord + 1"
proof -
  have "sint n < 2 ^ 31" using sint_lt[of n] by simp
  moreover have "- (2 ^ 31) \<le> sint ord" using sint_ge[of ord] by simp
  ultimately have "- (2 ^ 31) \<le> sint ord + 1 \<and> sint ord + 1 < 2 ^ 31"
    using assms by simp
  then show ?thesis
    by (simp add: sint_word_ariths signed_take_bit_int_eq_self)
qed

lemma forOrdinals_stays_false:
  assumes "\<And>ord. \<not> fst (body ord False)"
  shows "forOrdinals body ord rackNodeCount False = False"
proof (induction "nat (sint rackNodeCount - sint ord)" arbitrary: ord)
  case 0
  then have "\<not> ord <s rackNodeCount" by (simp add: word_sless_alt)
  then show ?case by (subst forOrdinals.simps) simp
next
  case (Suc d)
  then have lt: "sint ord < sint rackNodeCount" by linarith
  have "d = nat (sint rackNodeCount - sint (ord + 1))"
    using Suc(2) sint_succ_less[OF lt] by simp
  then have ih: "forOrdinals body (ord + 1) rackNodeCount False = False"
    by (rule Suc(1))
  obtain p stop where b: "body ord False = (p, stop)" by (cases "body ord False") auto
  then have "p = False" using assms[of ord] by simp
  then show ?case
    using lt b ih by (subst forOrdinals.simps) (simp add: word_sless_alt)
qed

lemma forOrdinals_failing_ordinal:
  assumes stay: "\<And>ord. \<not> fst (body ord False)"
    and brk: "\<And>ord p. snd (body ord p) \<Longrightarrow> \<not> fst (body ord p)"
    and fail: "\<And>p. \<not> fst (body k p)"
    and "sint ord \<le> sint k" and "sint k < sint rackNodeCount"
  shows "forOrdinals body ord rackNodeCount prewarmed = False"
  using assms(4)
proof (induction "nat (sint k - sint ord)" arbitrary: ord prewarmed)
  case 0
  then have "sint ord = sint k" by simp
  then have ok: "ord = k" by (rule signed_word_eqI)
  have lt: "ord <s rackNodeCount" using ok assms(5) by (simp add: word_sless_alt)
  obtain p stop where b: "body ord prewarmed = (p, stop)"
    by (cases "body ord prewarmed") auto
  then have "p = False" using fail[of prewarmed] ok by simp
  then show ?case
    using lt b forOrdinals_stays_false[of body "ord + 1" rackNodeCount, OF stay]
    by (subst forOrdinals.simps) simp
next
  case (Suc d)
  then have lk: "sint ord < sint k" by linarith
  then have lt: "sint ord < sint rackNodeCount" using assms(5) by linarith
  have s: "sint (ord + 1) = sint ord + 1" by (rule sint_succ_less[OF lt])
  have "d = nat (sint k - sint (ord + 1))" using Suc(2) s by simp
  moreover have "sint (ord + 1) \<le> sint k" using lk s by simp
  ultimately have ih: "forOrdinals body (ord + 1) rackNodeCount p = False" for p
    using Suc(1) by blast
  obtain p stop where b: "body ord prewarmed = (p, stop)"
    by (cases "body ord prewarmed") auto
  have "stop \<Longrightarrow> p = False" using brk[of ord prewarmed] b by simp
  then show ?case
    using lt b ih[of p] by (subst forOrdinals.simps) (auto simp: word_sless_alt)
qed

lemma prewarmedRacks_stays_false:
  "prewarmedRacks sdcc h sdc services racks False = False"
  by (induction racks)
     (simp_all add: forOrdinals_stays_false prewarmedNode_stays_false split: sum.splits)

text \<open>What makes a node of a rack not prewarmed: a missing service, a failed pod lookup, or a
  pod whose containers are not ready.\<close>

lemma prewarmedRacks_failing_node:
  assumes "rack \<in> set racks"
    and "GetRackNodeCount h sdc (specName rack) = Inr rackNodeCount"
    and "0 \<le> sint ord" and "sint ord < sint rackNodeCount"
    and "\<And>p. \<not> fst (prewarmedNode sdcc h sdc services rack ord p)"
  shows "prewarmedRacks sdcc h sdc services racks prewarmed = False"
  using assms(1)
proof (induction racks arbitrary: prewarmed)
  case Nil
  then show ?case by simp
next
  case (Cons r rest)
  show ?case
  proof (cases "GetRackNodeCount h sdc (specName r)")
    case (Inl err)
    then show ?thesis by simp
  next
    case (Inr n)
    show ?thesis
    proof (cases "r = rack")
      case True
      then have n: "n = rackNodeCount" using Inr assms(2) by simp
      have "forOrdinals (prewarmedNode sdcc h sdc services rack) 0 rackNodeCount prewarmed = False"
      proof (rule forOrdinals_failing_ordinal[where k = ord])
        show "\<not> fst (prewarmedNode sdcc h sdc services rack k False)" for k
          by (rule prewarmedNode_stays_false)
        show "snd (prewarmedNode sdcc h sdc services rack k p)
              \<Longrightarrow> \<not> fst (prewarmedNode sdcc h sdc services rack k p)" for k p
          by (rule prewarmedNode_break_false)
        show "\<not> fst (prewarmedNode sdcc h sdc services rack ord p)" for p
          by (rule assms(5))
        show "sint (0::int32) \<le> sint ord" using assms(3) by simp
        show "sint ord < sint rackNodeCount" by (rule assms(4))
      qed
      then show ?thesis using Inr True n by (simp add: prewarmedRacks_stays_false)
    next
      case False
      then have "rack \<in> set rest" using Cons.prems by simp
      then show ?thesis using Inr Cons.IH by simp
    qed
  qed
qed

lemma prewarmedRacks_failing_count:
  assumes "rack \<in> set racks" and "GetRackNodeCount h sdc (specName rack) = Inl err"
  shows "prewarmedRacks sdcc h sdc services racks prewarmed = False"
  using assms(1)
proof (induction racks arbitrary: prewarmed)
  case Nil
  then show ?case by simp
next
  case (Cons r rest)
  show ?case
  proof (cases "r = rack")
    case True
    then show ?thesis using assms(2) by simp
  next
    case False
    then have "rack \<in> set rest" using Cons.prems by simp
    then show ?thesis using Cons.IH by (simp split: sum.splits)
  qed
qed

lemma FindStatusCondition_overwriteFirst:
  "FindStatusCondition conditions (condType newCondition) = Some existing
   \<Longrightarrow> FindStatusCondition (overwriteFirst conditions newCondition now) (condType newCondition)
       = Some (overwriteCondition existing newCondition now)"
  by (induction conditions)
     (auto simp: FindStatusCondition_def overwriteCondition_def Let_def)

lemma FindStatusCondition_append_new:
  "FindStatusCondition conditions t = None \<Longrightarrow> condType c = t
   \<Longrightarrow> FindStatusCondition (conditions @ [c]) t = Some c"
  by (induction conditions) (auto simp: FindStatusCondition_def)

lemma FindStatusCondition_SetStatusCondition:
  "\<exists>c. FindStatusCondition (SetStatusCondition conditions newCondition now) (condType newCondition)
         = Some c
       \<and> condStatus c = condStatus newCondition \<and> condReason c = condReason newCondition
       \<and> condMessage c = condMessage newCondition
       \<and> condObservedGeneration c = condObservedGeneration newCondition"
proof (cases "FindStatusCondition conditions (condType newCondition)")
  case None
  then show ?thesis
    using FindStatusCondition_append_new[OF None]
    by (simp add: SetStatusCondition_def)
next
  case (Some existing)
  then show ?thesis
    using FindStatusCondition_overwriteFirst[OF Some]
    by (simp add: SetStatusCondition_def overwriteCondition_def Let_def)
qed


lemma forOrdinals_done:
  "\<not> ord <s rackNodeCount \<Longrightarrow> forOrdinals body ord rackNodeCount prewarmed = prewarmed"
  by (subst forOrdinals.simps) simp

lemma forOrdinals_step:
  "ord <s rackNodeCount \<Longrightarrow>
   forOrdinals body ord rackNodeCount prewarmed =
     (if snd (body ord prewarmed) then fst (body ord prewarmed)
      else forOrdinals body (ord + 1) rackNodeCount (fst (body ord prewarmed)))"
  by (subst forOrdinals.simps) (simp split: prod.splits)

text \<open>
  C4 (as the code has it).  \<open>setPrewarmedStatusCondition\<close> has no error result: it returns
  the status with only the conditions changed.  Whenever, for some rack of the specification and
  some ordinal below its node count, the member service is missing or the pod lookup fails, the
  \<open>Prewarmed\<close> condition of the result is false with reason \<open>NotAllNodesPrewarmed\<close>; a pod
  that is found but not ready gives the very same reason and message.
\<close>

theorem prewarmed_false_on_lookup_failure:
  fixes ord :: int32
  assumes "rack \<in> set (specRacks (Spec sdc))"
    and "GetRackNodeCount h sdc (specName rack) = Inr rackNodeCount"
    and "0 \<le> sint ord" and "sint ord < sint rackNodeCount"
    and "services (MemberServiceName h rack sdc (sint ord)) = None
         \<or> (\<exists>svc err. services (MemberServiceName h rack sdc (sint ord)) = Some svc
               \<and> podLister sdcc (sdcNamespace sdc) (PodNameFromService h svc) = Inl err)
         \<or> (\<exists>svc pod. services (MemberServiceName h rack sdc (sint ord)) = Some svc
               \<and> podLister sdcc (sdcNamespace sdc) (PodNameFromService h svc) = Inr pod
               \<and> (\<not> IsScyllaDBIgnitionContainerReady h pod
                    \<or> \<not> IsDelayedVolumeMountContainerRunning h pod))"
  shows "setPrewarmedStatusCondition sdcc h now sdc status services
         = status\<lparr>Conditions :=
             Conditions (setPrewarmedStatusCondition sdcc h now sdc status services)\<rparr>
       \<and> (\<exists>c. FindStatusCondition
                 (Conditions (setPrewarmedStatusCondition sdcc h now sdc status services))
                 (PrewarmedCondition h) = Some c
              \<and> condStatus c = ConditionFalse
              \<and> condReason c = ''NotAllNodesPrewarmed''
              \<and> condMessage c = ''Not all nodes are prewarmed yet.''
              \<and> condObservedGeneration c = Generation sdc)"
proof
  show "setPrewarmedStatusCondition sdcc h now sdc status services
         = status\<lparr>Conditions :=
             Conditions (setPrewarmedStatusCondition sdcc h now sdc status services)\<rparr>"
    by (simp add: setPrewarmedStatusCondition_def)
next
  have node: "\<not> fst (prewarmedNode sdcc h sdc services rack ord p)" for p
    using assms(5) by (auto simp: prewarmedNode_def Let_def)
  have "prewarmedRacks sdcc h sdc services (specRacks (Spec sdc)) True = False"
    by (rule prewarmedRacks_failing_node[OF assms(1) assms(2) assms(3) assms(4) node])
  then have c: "Conditions (setPrewarmedStatusCondition sdcc h now sdc status services)
      = SetStatusCondition (Conditions status)
          \<lparr> condType = PrewarmedCondition h, condStatus = ConditionFalse,
            condObservedGeneration = Generation sdc, condLastTransitionTime = 0,
            condReason = ''NotAllNodesPrewarmed'',
            condMessage = ''Not all nodes are prewarmed yet.'' \<rparr> now"
    by (simp add: setPrewarmedStatusCondition_def)
  show "\<exists>c. FindStatusCondition
                 (Conditions (setPrewarmedStatusCondition sdcc h now sdc status services))
                 (PrewarmedCondition h) = Some c
              \<and> condStatus c = ConditionFalse
              \<and> condReason c = ''NotAllNodesPrewarmed''
              \<and> condMessage c = ''Not all nodes are prewarmed yet.''
              \<and> condObservedGeneration c = Generation sdc"
    unfolding c
    using FindStatusCondition_SetStatusCondition[of "Conditions status"
        "\<lparr> condType = PrewarmedCondition h, condStatus = ConditionFalse,
           condObservedGeneration = Generation sdc, condLastTransitionTime = 0,
           condReason = ''NotAllNodesPrewarmed'',
           condMessage = ''Not all nodes are prewarmed yet.'' \<rparr>" now]
    by simp
qed

theorem prewarmed_false_on_lookup_failure_witness:
  "\<lparr> specName = ''a'' \<rparr> \<in> set (specRacks (Spec exampleDatacenter))
   \<and> GetRackNodeCount exampleHelpers exampleDatacenter (specName \<lparr> specName = ''a'' \<rparr>) = Inr 1
   \<and> (Map.empty :: string \<rightharpoonup> Service)
        (MemberServiceName exampleHelpers \<lparr> specName = ''a'' \<rparr> exampleDatacenter (sint (0::int32)))
      = None
   \<and> (\<exists>c. FindStatusCondition
             (Conditions (setPrewarmedStatusCondition exampleController exampleHelpers 42
                            exampleDatacenter (Status exampleDatacenter) Map.empty))
             ''Prewarmed'' = Some c
          \<and> condStatus c = ConditionFalse \<and> condReason c = ''NotAllNodesPrewarmed'')"
proof -
  have r: "\<lparr> specName = ''a'' \<rparr> \<in> set (specRacks (Spec exampleDatacenter))"
    by (simp add: exampleDatacenter_def)
  have n: "GetRackNodeCount exampleHelpers exampleDatacenter (specName \<lparr> specName = ''a'' \<rparr>)
           = Inr 1"
    by (simp add: exampleHelpers_def)
  have o: "0 \<le> sint (0::int32)" "sint (0::int32) < sint (1::int32)" by simp_all
  have p: "PrewarmedCondition exampleHelpers = ''Prewarmed''" by (simp add: exampleHelpers_def)
  have f: "(Map.empty :: string \<rightharpoonup> Service)
        (MemberServiceName exampleHelpers \<lparr> specName = ''a'' \<rparr> exampleDatacenter (sint (0::int32)))
      = None"
    by simp
  note t = prewarmed_false_on_lookup_failure[of "\<lparr> specName = ''a'' \<rparr>" exampleDatacenter
      exampleHelpers 1 0 Map.empty exampleController 42 "Status exampleDatacenter",
      OF r n o disjI1, OF f, THEN conjunct2]
  show ?thesis using r n f t unfolding p by blast
qed

theorem prewarmed_reason_same_for_lookup_failure_and_not_ready:
  "(Map.empty :: string \<rightharpoonup> Service)
        (MemberServiceName exampleHelpers \<lparr> specName = ''a'' \<rparr> exampleDatacenter 0) = None
   \<and> exampleServices (MemberServiceName exampleHelpers \<lparr> specName = ''a'' \<rparr> exampleDatacenter 0)
      = Some \<lparr> svcName = ''dc-a-0'', svcLabels = Map.empty \<rparr>
   \<and> podLister (exampleController\<lparr>podLister :=
                   (\<lambda>ns name. Inr (examplePod\<lparr>podContainerStatuses := []\<rparr>))\<rparr>)
        ''scylla'' ''dc-a-0''
      = Inr (examplePod\<lparr>podContainerStatuses := []\<rparr>)
   \<and> FindStatusCondition
        (Conditions (setPrewarmedStatusCondition exampleController exampleHelpers 42
                       exampleDatacenter (Status exampleDatacenter) Map.empty))
        ''Prewarmed''
      = Some \<lparr> condType = ''Prewarmed'', condStatus = ConditionFalse, condObservedGeneration = 5,
               condLastTransitionTime = 42, condReason = ''NotAllNodesPrewarmed'',
               condMessage = ''Not all nodes are prewarmed yet.'' \<rparr>
   \<and> FindStatusCondition
        (Conditions (setPrewarmedStatusCondition
                       (exampleController\<lparr>podLister :=
                          (\<lambda>ns name. Inr (examplePod\<lparr>podContainerStatuses := []\<rparr>))\<rparr>)
                       exampleHelpers 42 exampleDatacenter (Status exampleDatacenter)
                       exampleServices))
        ''Prewarmed''
      = Some \<lparr> condType = ''Prewarmed'', condStatus = ConditionFalse, condObservedGeneration = 5,
               condLastTransitionTime = 42, condReason = ''NotAllNodesPrewarmed'',
               condMessage = ''Not all nodes are prewarmed yet.'' \<rparr>"
  by (simp add: setPrewarmedStatusCondition_def forOrdinals_done forOrdinals_step
      prewarmedNode_def SetStatusCondition_def FindStatusCondition_def word_sless_alt
      exampleController_def exampleHelpers_def exampleDatacenter_def exampleServices_def
      examplePod_def Let_def)


lemma overwriteCondition_idem:
  "overwriteCondition (overwriteCondition existing newCondition now) newCondition later
   = overwriteCondition existing newCondition now"
  by (simp add: overwriteCondition_def Let_def)

lemma condType_overwriteCondition:
  "condType (overwriteCondition existing newCondition now) = condType existing"
  by (simp add: overwriteCondition_def Let_def)

lemma overwriteFirst_idem:
  "overwriteFirst (overwriteFirst conditions newCondition now) newCondition later
   = overwriteFirst conditions newCondition now"
  by (induction conditions)
     (simp_all add: overwriteCondition_idem condType_overwriteCondition)

lemma overwriteFirst_appended:
  "FindStatusCondition conditions (condType newCondition) = None
   \<Longrightarrow> condType c = condType newCondition
   \<Longrightarrow> overwriteFirst (conditions @ [c]) newCondition later
       = conditions @ [overwriteCondition c newCondition later]"
  by (induction conditions) (auto simp: FindStatusCondition_def split: if_splits)

lemma SetStatusCondition_idem:
  "SetStatusCondition (SetStatusCondition conditions newCondition now) newCondition later
   = SetStatusCondition conditions newCondition now"
proof (cases "FindStatusCondition conditions (condType newCondition)")
  case None
  let ?c = "if condLastTransitionTime newCondition = 0
            then newCondition\<lparr>condLastTransitionTime := now\<rparr> else newCondition"
  have t: "condType ?c = condType newCondition" by simp
  have first: "SetStatusCondition conditions newCondition now = conditions @ [?c]"
    using None by (simp add: SetStatusCondition_def)
  have found: "FindStatusCondition (conditions @ [?c]) (condType newCondition) = Some ?c"
    by (rule FindStatusCondition_append_new[OF None t])
  have same: "overwriteCondition ?c newCondition later = ?c"
    by (simp add: overwriteCondition_def Let_def)
  have "SetStatusCondition (conditions @ [?c]) newCondition later
        = overwriteFirst (conditions @ [?c]) newCondition later"
    using found by (simp add: SetStatusCondition_def)
  also have "\<dots> = conditions @ [overwriteCondition ?c newCondition later]"
    by (rule overwriteFirst_appended[OF None t])
  finally show ?thesis unfolding first same .
next
  case (Some existing)
  have first: "SetStatusCondition conditions newCondition now
               = overwriteFirst conditions newCondition now"
    using Some by (simp add: SetStatusCondition_def)
  show ?thesis
    unfolding first
    using FindStatusCondition_overwriteFirst[OF Some, of now]
    by (simp add: SetStatusCondition_def overwriteFirst_idem)
qed

lemma prewarmedRacks_ignores_status:
  assumes "\<forall>name. GetRackNodeCount h (sdc\<lparr>Status := anyStatus\<rparr>) name = GetRackNodeCount h sdc name"
    and "\<forall>rack ord. MemberServiceName h rack (sdc\<lparr>Status := anyStatus\<rparr>) ord
                     = MemberServiceName h rack sdc ord"
  shows "prewarmedRacks sdcc h (sdc\<lparr>Status := anyStatus\<rparr>) services racks prewarmed
         = prewarmedRacks sdcc h sdc services racks prewarmed"
proof -
  have node: "prewarmedNode sdcc h (sdc\<lparr>Status := anyStatus\<rparr>) services rack
              = prewarmedNode sdcc h sdc services rack" for rack
    using assms(2) by (intro ext) (simp add: prewarmedNode_def Let_def split: option.splits)
  show ?thesis
    using assms(1)
    by (induction racks arbitrary: prewarmed) (simp_all add: node split: sum.splits)
qed

lemma setPrewarmedStatusCondition_again:
  assumes "\<forall>name. GetRackNodeCount h (sdc\<lparr>Status := anyStatus\<rparr>) name = GetRackNodeCount h sdc name"
    and "\<forall>rack ord. MemberServiceName h rack (sdc\<lparr>Status := anyStatus\<rparr>) ord
                     = MemberServiceName h rack sdc ord"
  shows "setPrewarmedStatusCondition sdcc h later (sdc\<lparr>Status := anyStatus\<rparr>)
           (setPrewarmedStatusCondition sdcc h now sdc status services) services
         = setPrewarmedStatusCondition sdcc h now sdc status services"
  using prewarmedRacks_ignores_status[OF assms, of sdcc services "specRacks (Spec sdc)" True]
  by (simp add: setPrewarmedStatusCondition_def SetStatusCondition_idem)

text \<open>
  C5.  \<open>updateStatus\<close> calls the store exactly when the given status differs from the stored
  one, and then once, with the stored object carrying the given status; with an equal status
  it returns without a call.  Computing the status again from the object as persisted and the
  same workload objects, services and pods gives the same status, with or without the
  \<open>Prewarmed\<close> condition set on it, and \<open>updateStatus\<close> then makes no call.  (The naming
  helpers are assumed not to read the status of the datacenter.)
\<close>

theorem updateStatus_only_on_change:
  "(Status currentSC = status \<longrightarrow> updateStatus sdcc currentSC status = Some ([], None))
   \<and> (\<forall>written err. updateStatus sdcc currentSC status = Some (written, err) \<and> written \<noteq> []
         \<longrightarrow> Status currentSC \<noteq> status)
   \<and> (\<forall>aggregated. Status currentSC \<noteq> status
                     \<and> updateAggregatedStatusFields status = Some aggregated
         \<longrightarrow> updateStatus sdcc currentSC status
             = Some ([currentSC\<lparr>Status := aggregated\<rparr>],
                     UpdateStatus sdcc (currentSC\<lparr>Status := aggregated\<rparr>)))
   \<and> ((\<forall>rack anyStatus. StatefulSetNameForRack h rack (sdc\<lparr>Status := anyStatus\<rparr>)
                          = StatefulSetNameForRack h rack sdc)
       \<and> calculateStatus sdcc h sdc m = Some computed
       \<longrightarrow> (Status sdc \<noteq> computed
              \<longrightarrow> updateStatus sdcc sdc computed
                  = Some ([sdc\<lparr>Status := computed\<rparr>], UpdateStatus sdcc (sdc\<lparr>Status := computed\<rparr>)))
           \<and> calculateStatus sdcc h (sdc\<lparr>Status := computed\<rparr>) m = Some computed
           \<and> updateStatus sdcc (sdc\<lparr>Status := computed\<rparr>) computed = Some ([], None))
   \<and> ((\<forall>rack anyStatus. StatefulSetNameForRack h rack (sdc\<lparr>Status := anyStatus\<rparr>)
                          = StatefulSetNameForRack h rack sdc)
       \<and> (\<forall>name anyStatus. GetRackNodeCount h (sdc\<lparr>Status := anyStatus\<rparr>) name
                          = GetRackNodeCount h sdc name)
       \<and> (\<forall>rack ord anyStatus. MemberServiceName h rack (sdc\<lparr>Status := anyStatus\<rparr>) ord
                          = MemberServiceName h rack sdc ord)
       \<and> calculateStatus sdcc h sdc m = Some computed
       \<and> full = setPrewarmedStatusCondition sdcc h now sdc computed services
       \<longrightarrow> (Status sdc \<noteq> full
              \<longrightarrow> updateStatus sdcc sdc full
                  = Some ([sdc\<lparr>Status := full\<rparr>], UpdateStatus sdcc (sdc\<lparr>Status := full\<rparr>)))
           \<and> calculateStatus sdcc h (sdc\<lparr>Status := full\<rparr>) m = Some full
           \<and> setPrewarmedStatusCondition sdcc h later (sdc\<lparr>Status := full\<rparr>) full services = full
           \<and> updateStatus sdcc (sdc\<lparr>Status := full\<rparr>) full = Some ([], None))"
proof (intro conjI allI impI)
  show "updateStatus sdcc currentSC status = Some ([], None)" if "Status currentSC = status"
    using that by (simp add: updateStatus_def)
next
  fix written err
  assume "updateStatus sdcc currentSC status = Some (written, err) \<and> written \<noteq> []"
  then show "Status currentSC \<noteq> status"
    by (auto simp: updateStatus_def)
next
  fix aggregated
  assume "Status currentSC \<noteq> status \<and> updateAggregatedStatusFields status = Some aggregated"
  then show "updateStatus sdcc currentSC status
             = Some ([currentSC\<lparr>Status := aggregated\<rparr>],
                     UpdateStatus sdcc (currentSC\<lparr>Status := aggregated\<rparr>))"
    by (simp add: updateStatus_def Let_def)
next
  assume h: "(\<forall>rack anyStatus. StatefulSetNameForRack h rack (sdc\<lparr>Status := anyStatus\<rparr>)
                          = StatefulSetNameForRack h rack sdc)
       \<and> calculateStatus sdcc h sdc m = Some computed"
  then obtain before where "updateAggregatedStatusFields before = Some computed"
    using calculateStatus_aggregated by blast
  then have idem: "updateAggregatedStatusFields computed = Some computed"
    by (rule updateAggregatedStatusFields_idem)
  show "updateStatus sdcc sdc computed
        = Some ([sdc\<lparr>Status := computed\<rparr>], UpdateStatus sdcc (sdc\<lparr>Status := computed\<rparr>))"
    if "Status sdc \<noteq> computed"
    using that idem by (simp add: updateStatus_def Let_def)
  have "computed = computed\<lparr>Conditions := Conditions computed\<rparr>" by simp
  then show "calculateStatus sdcc h (sdc\<lparr>Status := computed\<rparr>) m = Some computed"
    using calculateStatus_again[of h sdc sdcc m computed computed "Conditions computed"] h
    by blast
  show "updateStatus sdcc (sdc\<lparr>Status := computed\<rparr>) computed = Some ([], None)"
    by (simp add: updateStatus_def)
next
  assume h: "(\<forall>rack anyStatus. StatefulSetNameForRack h rack (sdc\<lparr>Status := anyStatus\<rparr>)
                          = StatefulSetNameForRack h rack sdc)
       \<and> (\<forall>name anyStatus. GetRackNodeCount h (sdc\<lparr>Status := anyStatus\<rparr>) name
                          = GetRackNodeCount h sdc name)
       \<and> (\<forall>rack ord anyStatus. MemberServiceName h rack (sdc\<lparr>Status := anyStatus\<rparr>) ord
                          = MemberServiceName h rack sdc ord)
       \<and> calculateStatus sdcc h sdc m = Some computed
       \<and> full = setPrewarmedStatusCondition sdcc h now sdc computed services"
  then have f: "full = computed\<lparr>Conditions := Conditions full\<rparr>"
    by (simp add: setPrewarmedStatusCondition_def)
  from h have c: "calculateStatus sdcc h sdc m = Some computed" by (elim conjE)
  from c obtain before where "updateAggregatedStatusFields before = Some computed"
    using calculateStatus_aggregated by blast
  then have "updateAggregatedStatusFields (computed\<lparr>Conditions := Conditions full\<rparr>)
             = Some (computed\<lparr>Conditions := Conditions full\<rparr>)"
    by (rule updateAggregatedStatusFields_idem_conditions)
  then have idem: "updateAggregatedStatusFields full = Some full"
    using f by simp
  show "updateStatus sdcc sdc full
        = Some ([sdc\<lparr>Status := full\<rparr>], UpdateStatus sdcc (sdc\<lparr>Status := full\<rparr>))"
    if "Status sdc \<noteq> full"
    using that idem by (simp add: updateStatus_def Let_def)
  show "calculateStatus sdcc h (sdc\<lparr>Status := full\<rparr>) m = Some full"
    using calculateStatus_again[of h sdc sdcc m computed full "Conditions full"] h f
    by blast
  have "setPrewarmedStatusCondition sdcc h later (sdc\<lparr>Status := full\<rparr>)
          (setPrewarmedStatusCondition sdcc h now sdc computed services) services
        = setPrewarmedStatusCondition sdcc h now sdc computed services"
    using setPrewarmedStatusCondition_again[of h full sdc sdcc later now computed services] h
    by blast
  then show "setPrewarmedStatusCondition sdcc h later (sdc\<lparr>Status := full\<rparr>) full services = full"
    using h by simp
  show "updateStatus sdcc (sdc\<lparr>Status := full\<rparr>) full = Some ([], None)"
    by (simp add: updateStatus_def)
qed

theorem updateStatus_only_on_change_witness:
  "calculateStatus exampleController exampleHelpers exampleDatacenter exampleStatefulSets
     = Some exampleComputedStatus
   \<and> Status exampleDatacenter \<noteq> exampleComputedStatus
   \<and> updateStatus exampleController exampleDatacenter exampleComputedStatus
     = Some ([exampleDatacenter\<lparr>Status := exampleComputedStatus\<rparr>], None)
   \<and> calculateStatus exampleController exampleHelpers
        (exampleDatacenter\<lparr>Status := exampleComputedStatus\<rparr>) exampleStatefulSets
     = Some exampleComputedStatus
   \<and> updateStatus exampleController (exampleDatacenter\<lparr>Status := exampleComputedStatus\<rparr>)
        exampleComputedStatus
     = Some ([], None)
   \<and> calculateStatus exampleController exampleHelpers
        (exampleDatacenter\<lparr>Status :=
           setPrewarmedStatusCondition exampleController exampleHelpers 42 exampleDatacenter
             exampleComputedStatus exampleServices\<rparr>)
        exampleStatefulSets
     = Some (setPrewarmedStatusCondition exampleController exampleHelpers 42 exampleDatacenter
               exampleComputedStatus exampleServices)
   \<and> setPrewarmedStatusCondition exampleController exampleHelpers 99
        (exampleDatacenter\<lparr>Status :=
           setPrewarmedStatusCondition exampleController exampleHelpers 42 exampleDatacenter
             exampleComputedStatus exampleServices\<rparr>)
        (setPrewarmedStatusCondition exampleController exampleHelpers 42 exampleDatacenter
           exampleComputedStatus exampleServices)
        exampleServices
     = setPrewarmedStatusCondition exampleController exampleHelpers 42 exampleDatacenter
         exampleComputedStatus exampleServices"
proof -
  let ?full = "setPrewarmedStatusCondition exampleController exampleHelpers 42 exampleDatacenter
                 exampleComputedStatus exampleServices"
  have ign: "\<forall>rack anyStatus.
      StatefulSetNameForRack exampleHelpers rack (exampleDatacenter\<lparr>Status := anyStatus\<rparr>)
      = StatefulSetNameForRack exampleHelpers rack exampleDatacenter"
    by (simp add: exampleHelpers_def)
  have ign2: "\<forall>name anyStatus.
      GetRackNodeCount exampleHelpers (exampleDatacenter\<lparr>Status := anyStatus\<rparr>) name
      = GetRackNodeCount exampleHelpers exampleDatacenter name"
    by (simp add: exampleHelpers_def)
  have ign3: "\<forall>rack ord anyStatus.
      MemberServiceName exampleHelpers rack (exampleDatacenter\<lparr>Status := anyStatus\<rparr>) ord
      = MemberServiceName exampleHelpers rack exampleDatacenter ord"
    by (simp add: exampleHelpers_def)
  have ne: "Status exampleDatacenter \<noteq> exampleComputedStatus"
    by (simp add: exampleDatacenter_def exampleComputedStatus_def)
  have u: "UpdateStatus exampleController (exampleDatacenter\<lparr>Status := exampleComputedStatus\<rparr>)
           = None"
    by (simp add: exampleController_def)
  note all = updateStatus_only_on_change[of exampleDatacenter exampleComputedStatus
      exampleController exampleHelpers exampleDatacenter exampleStatefulSets
      exampleComputedStatus ?full 42 exampleServices 99]
  have t: "(Status exampleDatacenter \<noteq> exampleComputedStatus
              \<longrightarrow> updateStatus exampleController exampleDatacenter exampleComputedStatus
                  = Some ([exampleDatacenter\<lparr>Status := exampleComputedStatus\<rparr>],
                          UpdateStatus exampleController
                            (exampleDatacenter\<lparr>Status := exampleComputedStatus\<rparr>)))
           \<and> calculateStatus exampleController exampleHelpers
                (exampleDatacenter\<lparr>Status := exampleComputedStatus\<rparr>) exampleStatefulSets
               = Some exampleComputedStatus
           \<and> updateStatus exampleController (exampleDatacenter\<lparr>Status := exampleComputedStatus\<rparr>)
                exampleComputedStatus = Some ([], None)"
    using all ign example_calculateStatus by blast
  have t2: "calculateStatus exampleController exampleHelpers
              (exampleDatacenter\<lparr>Status := ?full\<rparr>) exampleStatefulSets = Some ?full
           \<and> setPrewarmedStatusCondition exampleController exampleHelpers 99
                (exampleDatacenter\<lparr>Status := ?full\<rparr>) ?full exampleServices = ?full"
    using all ign ign2 ign3 example_calculateStatus by blast
  show ?thesis
    using example_calculateStatus ne t t2 u by simp
qed


end
